theory Spec2Isabelle
  imports Complex_Main
begin

section \<open>Power-law Lorentzian fitting: a model of 2DPowerLorentzianFitCeres.cc\<close>

text \<open>
  The translation unit fits the profile \<open>y(x) = A / (1 + ((x - m) / gamma)^2)^beta + B\<close>
  to charge samples. Its own code is the statistics, the three-tier parameter estimator, the
  outlier filters and the search over datasets and solver configurations; the nonlinear
  solver and the covariance estimator are the Ceres library. The model below follows the
  functions of the file one by one. The Ceres entry points \<open>ceres::Solve\<close> and
  \<open>ceres::Covariance\<close> are parameters of the model, and so are the two values of
  \<open>Constants.hh\<close> and the default-constructed result structures of the header, none of
  which is part of the sources. Console output (\<open>verbose\<close>), the process-wide mutex and
  the logging initialisation have no effect on any returned value and are left out.
\<close>

subsection \<open>Doubles\<close>

text \<open>
  A C++ \<open>double\<close> is a finite number, one of the two infinities, or NaN. A finite double is
  modelled by the real number it denotes. A sum, product or quotient of finite values whose
  exact value reaches \<open>2^1024 - 2^970\<close> in magnitude, the midpoint between the largest
  double and \<open>2^1024\<close>, overflows to the infinity of its sign, as rounding to nearest does;
  below that bound the exact value is kept: rounding to 53 bits, underflow and the sign of
  zero are not modelled. The special values follow IEEE 754: NaN is absorbing and every
  comparison with NaN is false.
\<close>

datatype double = Fin real | PInf | NInf | NaN

definition overflow_bound :: real where
  "overflow_bound = 2 ^ 1024 - 2 ^ 970"

definition round_to_double :: "real \<Rightarrow> double" where
  "round_to_double r =
     (if overflow_bound \<le> r then PInf else if r \<le> - overflow_bound then NInf else Fin r)"

fun isnan :: "double \<Rightarrow> bool" where
  "isnan NaN = True"
| "isnan _ = False"

fun isfinite :: "double \<Rightarrow> bool" where
  "isfinite (Fin _) = True"
| "isfinite _ = False"

text \<open>Division: a zero divisor is taken as \<open>+0\<close>.\<close>

fun ieee_divide :: "double \<Rightarrow> double \<Rightarrow> double" where
  "ieee_divide (Fin a) (Fin b) =
     (if b = 0 then (if a = 0 then NaN else if 0 < a then PInf else NInf)
      else round_to_double (a / b))"
| "ieee_divide NaN _ = NaN"
| "ieee_divide _ NaN = NaN"
| "ieee_divide (Fin a) _ = Fin 0"
| "ieee_divide PInf (Fin b) = (if 0 \<le> b then PInf else NInf)"
| "ieee_divide NInf (Fin b) = (if 0 \<le> b then NInf else PInf)"
| "ieee_divide PInf PInf = NaN"
| "ieee_divide PInf NInf = NaN"
| "ieee_divide NInf PInf = NaN"
| "ieee_divide NInf NInf = NaN"

instantiation double :: "{plus, minus, uminus, times, inverse, abs, ord}"
begin

fun plus_double :: "double \<Rightarrow> double \<Rightarrow> double" where
  "plus_double (Fin a) (Fin b) = round_to_double (a + b)"
| "plus_double NaN _ = NaN"
| "plus_double _ NaN = NaN"
| "plus_double PInf NInf = NaN"
| "plus_double NInf PInf = NaN"
| "plus_double PInf _ = PInf"
| "plus_double _ PInf = PInf"
| "plus_double NInf _ = NInf"
| "plus_double _ NInf = NInf"

fun uminus_double :: "double \<Rightarrow> double" where
  "uminus_double (Fin a) = Fin (- a)"
| "uminus_double PInf = NInf"
| "uminus_double NInf = PInf"
| "uminus_double NaN = NaN"

definition minus_double :: "double \<Rightarrow> double \<Rightarrow> double" where
  "minus_double a b = a + (- b)"

fun times_double :: "double \<Rightarrow> double \<Rightarrow> double" where
  "times_double (Fin a) (Fin b) = round_to_double (a * b)"
| "times_double NaN _ = NaN"
| "times_double _ NaN = NaN"
| "times_double PInf (Fin b) = (if b = 0 then NaN else if 0 < b then PInf else NInf)"
| "times_double NInf (Fin b) = (if b = 0 then NaN else if 0 < b then NInf else PInf)"
| "times_double (Fin a) PInf = (if a = 0 then NaN else if 0 < a then PInf else NInf)"
| "times_double (Fin a) NInf = (if a = 0 then NaN else if 0 < a then NInf else PInf)"
| "times_double PInf PInf = PInf"
| "times_double PInf NInf = NInf"
| "times_double NInf PInf = NInf"
| "times_double NInf NInf = PInf"

definition divide_double :: "double \<Rightarrow> double \<Rightarrow> double" where
  "divide_double = ieee_divide"

definition inverse_double :: "double \<Rightarrow> double" where
  "inverse_double = ieee_divide (Fin 1)"

fun abs_double :: "double \<Rightarrow> double" where
  "abs_double (Fin a) = Fin \<bar>a\<bar>"
| "abs_double PInf = PInf"
| "abs_double NInf = PInf"
| "abs_double NaN = NaN"

fun less_double :: "double \<Rightarrow> double \<Rightarrow> bool" where
  "less_double (Fin a) (Fin b) = (a < b)"
| "less_double NInf (Fin _) = True"
| "less_double NInf PInf = True"
| "less_double (Fin _) PInf = True"
| "less_double _ _ = False"

fun less_eq_double :: "double \<Rightarrow> double \<Rightarrow> bool" where
  "less_eq_double (Fin a) (Fin b) = (a \<le> b)"
| "less_eq_double NaN _ = False"
| "less_eq_double _ NaN = False"
| "less_eq_double NInf _ = True"
| "less_eq_double _ PInf = True"
| "less_eq_double (Fin _) NInf = False"
| "less_eq_double PInf (Fin _) = False"
| "less_eq_double PInf NInf = False"

instance ..

end

text \<open>\<open>std::sqrt\<close>: NaN on a negative argument.\<close>

fun std_sqrt :: "double \<Rightarrow> double" where
  "std_sqrt (Fin a) = (if a < 0 then NaN else Fin (sqrt a))"
| "std_sqrt PInf = PInf"
| "std_sqrt NInf = NaN"
| "std_sqrt NaN = NaN"

text \<open>
  \<open>std::max(a, b)\<close> is \<open>(a < b) ? b : a\<close> and \<open>std::min(a, b)\<close> is \<open>(b < a) ? b : a\<close>:
  with a NaN operand both return their first argument.
\<close>

definition std_max :: "double \<Rightarrow> double \<Rightarrow> double" where
  "std_max a b = (if a < b then b else a)"

definition std_min :: "double \<Rightarrow> double \<Rightarrow> double" where
  "std_min a b = (if b < a then b else a)"

text \<open>The literal \<open>1e-12\<close>, and the conversion of a size to double.\<close>

abbreviation d1e_12 :: double where
  "d1e_12 \<equiv> Fin (1 / 10 ^ 12)"

abbreviation of_size :: "nat \<Rightarrow> double" where
  "of_size n \<equiv> Fin (real n)"

subsection \<open>Standard algorithms on vectors\<close>

text \<open>
  \<open>std::min_element\<close> and \<open>std::max_element\<close> return the first smallest and the first
  largest element; they are only called on non-empty vectors. \<open>std::accumulate\<close> adds from
  the left, starting at \<open>0.0\<close>.
\<close>

definition min_element :: "double list \<Rightarrow> double" where
  "min_element ys = foldl (\<lambda>m y. if y < m then y else m) (hd ys) (tl ys)"

definition max_element :: "double list \<Rightarrow> double" where
  "max_element ys = foldl (\<lambda>m y. if m < y then y else m) (hd ys) (tl ys)"

definition accumulate :: "double list \<Rightarrow> double" where
  "accumulate ys = foldl (+) (Fin 0) ys"

text \<open>
  \<open>std::sort\<close> with a comparator \<open>lt\<close>. On a vector whose elements \<open>lt\<close> orders strictly
  and weakly (doubles without NaN) every sorting algorithm returns the same sequence of
  values. The model is the insertion sort that the GNU library runs on a vector of at most
  sixteen elements: an element less than the first goes to the front; any other element
  moves towards the front past the elements it is less than, starting at the end of the
  sorted prefix (\<open>unguarded_linear_insert\<close> works on that prefix in reverse). Longer vectors
  are sorted by the same insertion sort here; the library partitions them first, which shows
  only on a vector with NaN elements.
\<close>

fun unguarded_linear_insert :: "('a \<Rightarrow> 'a \<Rightarrow> bool) \<Rightarrow> 'a \<Rightarrow> 'a list \<Rightarrow> 'a list" where
  "unguarded_linear_insert lt val [] = [val]"
| "unguarded_linear_insert lt val (next # rest) =
     (if lt val next then next # unguarded_linear_insert lt val rest else val # next # rest)"

definition insertion_step :: "('a \<Rightarrow> 'a \<Rightarrow> bool) \<Rightarrow> 'a list \<Rightarrow> 'a \<Rightarrow> 'a list" where
  "insertion_step lt sorted_prefix val =
     (if lt val (hd sorted_prefix) then val # sorted_prefix
      else rev (unguarded_linear_insert lt val (rev sorted_prefix)))"

fun sort_by :: "('a \<Rightarrow> 'a \<Rightarrow> bool) \<Rightarrow> 'a list \<Rightarrow> 'a list" where
  "sort_by lt [] = []"
| "sort_by lt (x # xs) = foldl (insertion_step lt) [x] xs"

definition std_sort :: "double list \<Rightarrow> double list" where
  "std_sort ys = sort_by (<) ys"

subsection \<open>Robust statistics\<close>

record DataStatistics =
  mean :: double
  median :: double
  std_dev :: double
  mad :: double
  q25 :: double
  q75 :: double
  min_val :: double
  max_val :: double
  weighted_mean :: double
  total_weight :: double
  robust_center :: double
  valid :: bool

text \<open>
  The structure is declared without initialiser and only \<open>valid\<close> is set before the early
  return, so every other member of an invalid result is indeterminate.
\<close>

definition invalid_statistics :: DataStatistics where
  "invalid_statistics =
     \<lparr>mean = undefined, median = undefined, std_dev = undefined, mad = undefined,
      q25 = undefined, q75 = undefined, min_val = undefined, max_val = undefined,
      weighted_mean = undefined, total_weight = undefined, robust_center = undefined,
      valid = False\<rparr>"

text \<open>The median of the sorted copy: the mean of the two middle elements when \<open>n\<close> is even.\<close>

definition median_of_sorted :: "double list \<Rightarrow> double" where
  "median_of_sorted sorted_y =
     (let n = length sorted_y in
      if n mod 2 = 0 then (sorted_y ! (n div 2 - 1) + sorted_y ! (n div 2)) / Fin 2
      else sorted_y ! (n div 2))"

text \<open>The raw MAD and its numerical safeguard (lines 159 to 165).\<close>

definition raw_mad :: "double list \<Rightarrow> double \<Rightarrow> double" where
  "raw_mad y_vals med =
     (let abs_deviations = std_sort (map (\<lambda>val. \<bar>val - med\<bar>) y_vals)
      in abs_deviations ! (length y_vals div 2) * Fin 1.4826)"

definition safeguard_mad :: "double \<Rightarrow> double \<Rightarrow> double" where
  "safeguard_mad m sd =
     (if \<not> isfinite m \<or> m < d1e_12
      then (if isfinite sd \<and> d1e_12 < sd then sd else d1e_12)
      else m)"

text \<open>The charge-weighted centre (lines 168 to 186): the pair is (weighted_mean, total_weight).\<close>

definition weighted_sums :: "double list \<Rightarrow> double list \<Rightarrow> double \<Rightarrow> double \<times> double" where
  "weighted_sums x_vals y_vals q =
     foldl (\<lambda>(wm, tw) (x, y).
              let weight = std_max (Fin 0) (y - q)
              in if Fin 0 < weight then (wm + x * weight, tw + weight) else (wm, tw))
           (Fin 0, Fin 0) (zip x_vals y_vals)"

definition CalculateRobustStatisticsPowerLorentzian ::
  "double list \<Rightarrow> double list \<Rightarrow> DataStatistics" where
  "CalculateRobustStatisticsPowerLorentzian x_vals y_vals =
     (if length x_vals \<noteq> length y_vals \<or> x_vals = [] then invalid_statistics
      else
        let n = length y_vals;
            mean' = accumulate y_vals / of_size n;
            variance = foldl (\<lambda>v val. v + (val - mean') * (val - mean')) (Fin 0) y_vals;
            std_dev' = std_sqrt (variance / of_size n);
            sorted_y = std_sort y_vals;
            median' = median_of_sorted sorted_y;
            mad' = safeguard_mad (raw_mad y_vals median') std_dev';
            q25' = sorted_y ! (n div 4);
            (wm, tw) = weighted_sums x_vals y_vals q25';
            weighted_mean' =
              (if Fin 0 < tw then wm / tw else accumulate x_vals / of_size (length x_vals))
        in \<lparr>mean = mean', median = median', std_dev = std_dev', mad = mad',
            q25 = q25', q75 = sorted_y ! (3 * n div 4),
            min_val = min_element y_vals, max_val = max_element y_vals,
            weighted_mean = weighted_mean', total_weight = tw,
            robust_center = weighted_mean', valid = True\<rparr>)"

subsection \<open>Parameter estimation\<close>

text \<open>
  The five error members of the structure are never written by the estimator and are left
  out. \<open>est_valid\<close> is the member \<open>valid\<close>.
\<close>

record PowerLorentzianParameterEstimates =
  amplitude :: double
  center :: double
  gamma :: double
  beta :: double
  baseline :: double
  est_valid :: bool
  method_used :: int

definition no_estimates :: PowerLorentzianParameterEstimates where
  "no_estimates =
     \<lparr>amplitude = undefined, center = undefined, gamma = undefined, beta = undefined,
      baseline = undefined, est_valid = False, method_used = 0\<rparr>"

text \<open>The loop of lines 244 to 251: the pair is (distance_spread, weight_sum).\<close>

definition spread_sums ::
  "double list \<Rightarrow> double list \<Rightarrow> double \<Rightarrow> double \<Rightarrow> double \<Rightarrow> double \<times> double" where
  "spread_sums x_vals y_vals base amp cen =
     foldl (\<lambda>(distance_spread, weight_sum) (x, y).
              let weight = std_max (Fin 0) (y - base)
              in if Fin 0.1 * amp < weight
                 then (let dx = x - cen in (distance_spread + weight * dx * dx, weight_sum + weight))
                 else (distance_spread, weight_sum))
           (Fin 0, Fin 0) (zip x_vals y_vals)"

text \<open>Method 1, physics based (lines 235 to 262), and its acceptance test (lines 265 to 267).\<close>

definition method1_estimates ::
  "DataStatistics \<Rightarrow> double list \<Rightarrow> double list \<Rightarrow> double \<Rightarrow> PowerLorentzianParameterEstimates" where
  "method1_estimates stats x_vals y_vals pixel_spacing =
     (let center' = weighted_mean stats;
          baseline' = std_min (min_val stats) (q25 stats);
          amplitude' = max_val stats - baseline';
          (distance_spread, weight_sum) = spread_sums x_vals y_vals baseline' amplitude' center';
          gamma' = (if Fin 0 < weight_sum then std_sqrt (Fin 2 * distance_spread / weight_sum)
                    else pixel_spacing * Fin 0.7);
          gamma'' = std_max (pixel_spacing * Fin 0.3) (std_min (pixel_spacing * Fin 3) gamma');
          amplitude'' = std_max amplitude' ((max_val stats - min_val stats) * Fin 0.1)
      in \<lparr>amplitude = amplitude'', center = center', gamma = gamma'', beta = Fin 1,
          baseline = baseline', est_valid = False, method_used = 0\<rparr>)"

definition method1_accepted :: "PowerLorentzianParameterEstimates \<Rightarrow> bool" where
  "method1_accepted e \<longleftrightarrow>
     Fin 0 < amplitude e \<and> Fin 0 < gamma e \<and>
     \<not> isnan (center e) \<and> \<not> isnan (amplitude e) \<and>
     \<not> isnan (gamma e) \<and> \<not> isnan (beta e) \<and> \<not> isnan (baseline e)"

text \<open>Method 2, robust statistical (lines 280 to 286).\<close>

definition method2_estimates ::
  "DataStatistics \<Rightarrow> double \<Rightarrow> PowerLorentzianParameterEstimates" where
  "method2_estimates stats pixel_spacing =
     \<lparr>amplitude = q75 stats - q25 stats, center = median stats,
      gamma = std_max (mad stats) (pixel_spacing * Fin 0.5), beta = Fin 1,
      baseline = q25 stats, est_valid = False, method_used = 0\<rparr>"

definition method2_accepted :: "PowerLorentzianParameterEstimates \<Rightarrow> bool" where
  "method2_accepted e \<longleftrightarrow> Fin 0 < amplitude e \<and> Fin 0 < gamma e"

text \<open>Method 3, the conservative fallback (lines 299 to 305).\<close>

definition method3_estimates ::
  "DataStatistics \<Rightarrow> double \<Rightarrow> double \<Rightarrow> PowerLorentzianParameterEstimates" where
  "method3_estimates stats center_estimate pixel_spacing =
     \<lparr>amplitude = max_val stats, center = center_estimate,
      gamma = pixel_spacing * Fin 0.7, beta = Fin 1,
      baseline = Fin 0, est_valid = True, method_used = 3\<rparr>"

definition EstimatePowerLorentzianParameters ::
  "double list \<Rightarrow> double list \<Rightarrow> double \<Rightarrow> double \<Rightarrow> PowerLorentzianParameterEstimates" where
  "EstimatePowerLorentzianParameters x_vals y_vals center_estimate pixel_spacing =
     (if length x_vals \<noteq> length y_vals \<or> length x_vals < 5 then no_estimates
      else
        let stats = CalculateRobustStatisticsPowerLorentzian x_vals y_vals in
        if \<not> valid stats then no_estimates
        else
          let e1 = method1_estimates stats x_vals y_vals pixel_spacing in
          if method1_accepted e1 then e1\<lparr>method_used := 1, est_valid := True\<rparr>
          else
            let e2 = method2_estimates stats pixel_spacing in
            if method2_accepted e2 then e2\<lparr>method_used := 2, est_valid := True\<rparr>
            else method3_estimates stats center_estimate pixel_spacing)"

subsection \<open>Outlier filter of a profile\<close>

text \<open>
  One pass of the threshold test (lines 339 to 346 and 361 to 366): the points
  whose charge lies in \<open>[lower, upper]\<close>, in their order.
\<close>

fun threshold_pass ::
  "double \<Rightarrow> double \<Rightarrow> double list \<Rightarrow> double list \<Rightarrow> double list \<times> double list" where
  "threshold_pass lower upper (x # xs) (y # ys) =
     (let (filtered_x, filtered_y) = threshold_pass lower upper xs ys
      in if lower \<le> y \<and> y \<le> upper then (x # filtered_x, y # filtered_y)
         else (filtered_x, filtered_y))"
| "threshold_pass lower upper _ _ = ([], [])"

definition mad_pass ::
  "DataStatistics \<Rightarrow> double \<Rightarrow> double list \<Rightarrow> double list \<Rightarrow> double list \<times> double list" where
  "mad_pass stats k x_vals y_vals =
     threshold_pass (median stats - k * mad stats) (median stats + k * mad stats) x_vals y_vals"

text \<open>
  Lines 335 to 367: the pass with the caller's threshold and, when it leaves fewer than
  \<open>size / 2\<close> points (a division of unsigned integers), the pass with the threshold 4.0
  on the original data in its place.
\<close>

definition lenient_retry ::
  "DataStatistics \<Rightarrow> double \<Rightarrow> double list \<Rightarrow> double list \<Rightarrow> double list \<times> double list" where
  "lenient_retry stats sigma_threshold x_vals y_vals =
     (let filtered = mad_pass stats sigma_threshold x_vals y_vals
      in if length (fst filtered) < length x_vals div 2
         then mad_pass stats (Fin 4) x_vals y_vals
         else filtered)"

definition FilterPowerLorentzianOutliers ::
  "double list \<Rightarrow> double list \<Rightarrow> double \<Rightarrow> double list \<times> double list" where
  "FilterPowerLorentzianOutliers x_vals y_vals sigma_threshold =
     (if length x_vals \<noteq> length y_vals \<or> length x_vals < 5 then ([], [])
      else
        let stats = CalculateRobustStatisticsPowerLorentzian x_vals y_vals in
        if \<not> valid stats then (x_vals, y_vals)
        else
          let filtered = lenient_retry stats sigma_threshold x_vals y_vals
          in if length (fst filtered) < 5 then (x_vals, y_vals) else filtered)"

subsection \<open>The Ceres interface\<close>

text \<open>
  The types of Ceres that the file uses. A problem is the list of its residual blocks, each
  the cost functor of one sample \<open>(x, y, uncertainty)\<close> with its loss function (a null
  pointer is \<open>None\<close>), and the bounds of the five parameters \<open>A, m, gamma, beta, B\<close>.
\<close>

datatype LinearSolverType =
  DENSE_NORMAL_CHOLESKY | DENSE_QR | SPARSE_NORMAL_CHOLESKY | DENSE_SCHUR | SPARSE_SCHUR
  | ITERATIVE_SCHUR | CGNR

datatype TrustRegionStrategyType = LEVENBERG_MARQUARDT | DOGLEG

datatype MinimizerType = LINE_SEARCH | TRUST_REGION

datatype TerminationType = CONVERGENCE | NO_CONVERGENCE | FAILURE | USER_SUCCESS | USER_FAILURE

datatype CovarianceAlgorithmType = DENSE_SVD | SPARSE_QR

datatype LossFunction = HuberLoss double | CauchyLoss double

text \<open>The array \<open>double parameters[5]\<close>, and likewise the five lower and upper bounds.\<close>

record Parameters =
  par_A :: double
  par_m :: double
  par_gamma :: double
  par_beta :: double
  par_B :: double

record ResidualBlock =
  block_x :: double
  block_y :: double
  block_uncertainty :: double
  block_loss :: "LossFunction option"

record Problem =
  residual_blocks :: "ResidualBlock list"
  lower_bound :: Parameters
  upper_bound :: Parameters

record SolverOptions =
  linear_solver_type :: LinearSolverType
  minimizer_type :: MinimizerType
  trust_region_strategy_type :: TrustRegionStrategyType
  options_function_tolerance :: double
  options_gradient_tolerance :: double
  parameter_tolerance :: double
  max_num_iterations :: int
  max_num_consecutive_invalid_steps :: int
  use_nonmonotonic_steps :: bool
  minimizer_progress_to_stdout :: bool

text \<open>
  The code reads the final cost of a summary once, on line 702, from the summary of the solve
  that passed the acceptance test and so terminated with \<open>CONVERGENCE\<close> or
  \<open>USER_SUCCESS\<close>. There Ceres reports the value of the objective, half the sum of the
  squared residuals (the comment of line 703 says so): a double that is neither negative nor
  NaN. The type \<open>cost\<close> holds these values; what the member holds after a failed solve is
  never read.
\<close>

typedef cost = "{c :: double. Fin 0 \<le> c}"
  morphisms cost_value make_cost
  by (rule exI[of _ "Fin 0"]) simp

record Summary =
  termination_type :: TerminationType
  final_cost :: cost

record CovarianceOptions =
  algorithm_type :: CovarianceAlgorithmType
  min_reciprocal_condition_number :: double
  null_space_rank :: int
  apply_loss_function :: bool

text \<open>
  \<open>ceres::Solve\<close> reads the options, the problem and the current parameter values and
  leaves the new parameter values and a summary. \<open>Covariance::Compute\<close> followed by
  \<open>GetCovarianceBlock\<close> either fails or fills the 25 entries of the covariance block.
\<close>

type_synonym Solve = "SolverOptions \<Rightarrow> Problem \<Rightarrow> Parameters \<Rightarrow> Parameters \<times> Summary"

type_synonym Covariance = "CovarianceOptions \<Rightarrow> Problem \<Rightarrow> Parameters \<Rightarrow> (nat \<Rightarrow> double) option"

definition set_parameter :: "nat \<Rightarrow> double \<Rightarrow> Parameters \<Rightarrow> Parameters" where
  "set_parameter i v p =
     (if i = 0 then p\<lparr>par_A := v\<rparr>
      else if i = 1 then p\<lparr>par_m := v\<rparr>
      else if i = 2 then p\<lparr>par_gamma := v\<rparr>
      else if i = 3 then p\<lparr>par_beta := v\<rparr>
      else if i = 4 then p\<lparr>par_B := v\<rparr>
      else p)"

definition SetParameterLowerBound :: "nat \<Rightarrow> double \<Rightarrow> Problem \<Rightarrow> Problem" where
  "SetParameterLowerBound i v problem = problem\<lparr>lower_bound := set_parameter i v (lower_bound problem)\<rparr>"

definition SetParameterUpperBound :: "nat \<Rightarrow> double \<Rightarrow> Problem \<Rightarrow> Problem" where
  "SetParameterUpperBound i v problem = problem\<lparr>upper_bound := set_parameter i v (upper_bound problem)\<rparr>"

definition AddResidualBlock ::
  "double \<times> double \<times> double \<Rightarrow> LossFunction option \<Rightarrow> Problem \<Rightarrow> Problem" where
  "AddResidualBlock cost_function loss problem =
     (case cost_function of (x, y, uncertainty) \<Rightarrow>
        problem\<lparr>residual_blocks := residual_blocks problem @
          [\<lparr>block_x = x, block_y = y, block_uncertainty = uncertainty, block_loss = loss\<rparr>]\<rparr>)"

text \<open>\<open>std::numeric_limits<double>::max()\<close>; a fresh problem has no residual block and no bound.\<close>

definition DBL_MAX :: double where
  "DBL_MAX = Fin ((2 ^ 53 - 1) * 2 ^ 971)"

definition unbounded_below :: Parameters where
  "unbounded_below =
     \<lparr>par_A = - DBL_MAX, par_m = - DBL_MAX, par_gamma = - DBL_MAX, par_beta = - DBL_MAX,
      par_B = - DBL_MAX\<rparr>"

definition unbounded_above :: Parameters where
  "unbounded_above =
     \<lparr>par_A = DBL_MAX, par_m = DBL_MAX, par_gamma = DBL_MAX, par_beta = DBL_MAX,
      par_B = DBL_MAX\<rparr>"

definition empty_problem :: Problem where
  "empty_problem =
     \<lparr>residual_blocks = [], lower_bound = unbounded_below, upper_bound = unbounded_above\<rparr>"

subsection \<open>The one-dimensional fit\<close>

text \<open>The two values read from \<open>Constants.hh\<close>.\<close>

record Constants =
  ENABLE_VERTICAL_CHARGE_UNCERTAINTIES :: bool
  MIN_UNCERTAINTY_VALUE :: double

definition CalculatePowerLorentzianUncertainty :: "Constants \<Rightarrow> double \<Rightarrow> double" where
  "CalculatePowerLorentzianUncertainty K max_charge_in_line =
     (if \<not> ENABLE_VERTICAL_CHARGE_UNCERTAINTIES K then Fin 1
      else
        let uncertainty = Fin 0.05 * max_charge_in_line
        in if uncertainty < MIN_UNCERTAINTY_VALUE K then MIN_UNCERTAINTY_VALUE K else uncertainty)"

record PowerLorentzianFittingConfig =
  linear_solver :: LinearSolverType
  trust_region :: TrustRegionStrategyType
  function_tolerance :: double
  gradient_tolerance :: double
  max_iterations :: int
  loss_function :: string
  loss_parameter :: double

text \<open>The five configurations of lines 471 to 521, in their order.\<close>

definition configs :: "PowerLorentzianParameterEstimates \<Rightarrow> PowerLorentzianFittingConfig list" where
  "configs estimates =
     [\<lparr>linear_solver = DENSE_QR, trust_region = LEVENBERG_MARQUARDT,
       function_tolerance = Fin (1 / 10 ^ 15), gradient_tolerance = Fin (1 / 10 ^ 15),
       max_iterations = 2000, loss_function = ''HUBER'',
       loss_parameter = amplitude estimates * Fin 0.1\<rparr>,
      \<lparr>linear_solver = DENSE_QR, trust_region = LEVENBERG_MARQUARDT,
       function_tolerance = Fin (1 / 10 ^ 12), gradient_tolerance = Fin (1 / 10 ^ 12),
       max_iterations = 1500, loss_function = ''CAUCHY'',
       loss_parameter = amplitude estimates * Fin 0.16\<rparr>,
      \<lparr>linear_solver = DENSE_QR, trust_region = DOGLEG,
       function_tolerance = Fin (1 / 10 ^ 10), gradient_tolerance = Fin (1 / 10 ^ 10),
       max_iterations = 1000, loss_function = ''NONE'',
       loss_parameter = Fin 0\<rparr>,
      \<lparr>linear_solver = DENSE_NORMAL_CHOLESKY, trust_region = LEVENBERG_MARQUARDT,
       function_tolerance = Fin (1 / 10 ^ 12), gradient_tolerance = Fin (1 / 10 ^ 12),
       max_iterations = 1500, loss_function = ''HUBER'',
       loss_parameter = amplitude estimates * Fin 0.13\<rparr>,
      \<lparr>linear_solver = SPARSE_NORMAL_CHOLESKY, trust_region = LEVENBERG_MARQUARDT,
       function_tolerance = Fin (1 / 10 ^ 12), gradient_tolerance = Fin (1 / 10 ^ 12),
       max_iterations = 1200, loss_function = ''CAUCHY'',
       loss_parameter = amplitude estimates * Fin 0.22\<rparr>]"

text \<open>
  Lines 525 to 567: the start values, one residual block per sample, each added with a null
  loss function, and the bounds of the five parameters.
\<close>

definition initial_parameters :: "PowerLorentzianParameterEstimates \<Rightarrow> Parameters" where
  "initial_parameters estimates =
     \<lparr>par_A = amplitude estimates, par_m = center estimates, par_gamma = gamma estimates,
      par_beta = beta estimates, par_B = baseline estimates\<rparr>"

definition add_residual_blocks :: "double list \<Rightarrow> double list \<Rightarrow> double \<Rightarrow> Problem \<Rightarrow> Problem" where
  "add_residual_blocks clean_x clean_y uncertainty problem =
     foldl (\<lambda>pr (x, y). AddResidualBlock (x, y, uncertainty) None pr) problem (zip clean_x clean_y)"

definition build_problem ::
  "Constants \<Rightarrow> PowerLorentzianParameterEstimates \<Rightarrow> double list \<Rightarrow> double list \<Rightarrow> double \<Rightarrow>
   double \<Rightarrow> Problem" where
  "build_problem K estimates clean_x clean_y uncertainty pixel_spacing =
     (let problem = add_residual_blocks clean_x clean_y uncertainty empty_problem;
          amp_min = std_max (MIN_UNCERTAINTY_VALUE K) (amplitude estimates * Fin 0.01);
          max_charge_val = max_element clean_y;
          physics_amp_max = max_charge_val * Fin 1.5;
          algo_amp_max = amplitude estimates * Fin 100;
          amp_max = std_min physics_amp_max algo_amp_max;
          problem = SetParameterLowerBound 0 amp_min problem;
          problem = SetParameterUpperBound 0 amp_max problem;
          center_range = pixel_spacing * Fin 3;
          problem = SetParameterLowerBound 1 (center estimates - center_range) problem;
          problem = SetParameterUpperBound 1 (center estimates + center_range) problem;
          problem = SetParameterLowerBound 2 (pixel_spacing * Fin 0.05) problem;
          problem = SetParameterUpperBound 2 (pixel_spacing * Fin 4) problem;
          problem = SetParameterLowerBound 3 (Fin 0.2) problem;
          problem = SetParameterUpperBound 3 (Fin 4) problem;
          baseline_range = std_max (amplitude estimates * Fin 0.5) (\<bar>baseline estimates\<bar> * Fin 2);
          problem = SetParameterLowerBound 4 (baseline estimates - baseline_range) problem;
          problem = SetParameterUpperBound 4 (baseline estimates + baseline_range) problem
      in problem)"

definition solver_options :: "PowerLorentzianFittingConfig \<Rightarrow> SolverOptions" where
  "solver_options config =
     \<lparr>linear_solver_type = linear_solver config,
      minimizer_type = TRUST_REGION,
      trust_region_strategy_type = trust_region config,
      options_function_tolerance = function_tolerance config,
      options_gradient_tolerance = gradient_tolerance config,
      parameter_tolerance = Fin (1 / 10 ^ 15),
      max_num_iterations = max_iterations config,
      max_num_consecutive_invalid_steps = 50,
      use_nonmonotonic_steps = True,
      minimizer_progress_to_stdout = False\<rparr>"

text \<open>The test on the parameters that both stages share: positive amplitude and width, no NaN.\<close>

definition parameters_plausible :: "Parameters \<Rightarrow> bool" where
  "parameters_plausible p \<longleftrightarrow>
     Fin 0 < par_A p \<and> Fin 0 < par_gamma p \<and>
     \<not> isnan (par_A p) \<and> \<not> isnan (par_m p) \<and> \<not> isnan (par_gamma p) \<and>
     \<not> isnan (par_beta p) \<and> \<not> isnan (par_B p)"

definition converged :: "Summary \<Rightarrow> bool" where
  "converged summary \<longleftrightarrow>
     termination_type summary = CONVERGENCE \<or> termination_type summary = USER_SUCCESS"

text \<open>
  Lines 582 to 631, the two stages. The result is the problem as the last solve saw it, the
  parameter array and the summary of the last solve.
\<close>

definition two_stage_solve ::
  "Solve \<Rightarrow> SolverOptions \<Rightarrow> Problem \<Rightarrow> Parameters \<Rightarrow> double \<Rightarrow> Problem \<times> Parameters \<times> Summary" where
  "two_stage_solve solve options problem parameters pixel_spacing =
     (let problem = SetParameterLowerBound 3 (Fin 0.9) problem;
          problem = SetParameterUpperBound 3 (Fin 1.1) problem;
          (parameters, summary_stage1) = solve options problem parameters;
          stage1_successful = (converged summary_stage1 \<and> parameters_plausible parameters)
      in if stage1_successful
         then
           let problem = SetParameterLowerBound 3 (Fin 0.2) problem;
               problem = SetParameterUpperBound 3 (Fin 4) problem;
               stage1_center = par_m parameters;
               tight_center_range = pixel_spacing * Fin 0.5;
               problem = SetParameterLowerBound 1 (stage1_center - tight_center_range) problem;
               problem = SetParameterUpperBound 1 (stage1_center + tight_center_range) problem;
               (parameters, summary) = solve options problem parameters
           in (problem, parameters, summary)
         else
           let problem = SetParameterLowerBound 3 (Fin 0.2) problem;
               problem = SetParameterUpperBound 3 (Fin 4) problem;
               (parameters, summary) = solve options problem parameters
           in (problem, parameters, summary))"

text \<open>The acceptance test of lines 634 to 640.\<close>

definition fit_accepted :: "Parameters \<Rightarrow> Summary \<Rightarrow> bool" where
  "fit_accepted parameters summary \<longleftrightarrow>
     converged summary \<and>
     Fin 0 < par_A parameters \<and> Fin 0 < par_gamma parameters \<and>
     Fin 0.1 < par_beta parameters \<and> par_beta parameters < Fin 5 \<and>
     \<not> isnan (par_A parameters) \<and> \<not> isnan (par_m parameters) \<and>
     \<not> isnan (par_gamma parameters) \<and> \<not> isnan (par_beta parameters) \<and>
     \<not> isnan (par_B parameters)"

text \<open>One pass of the loop over the configurations: everything up to the acceptance test.\<close>

definition run_config ::
  "Solve \<Rightarrow> Constants \<Rightarrow> double \<Rightarrow> PowerLorentzianParameterEstimates \<Rightarrow> double list \<Rightarrow>
   double list \<Rightarrow> double \<Rightarrow> PowerLorentzianFittingConfig \<Rightarrow> Problem \<times> Parameters \<times> Summary" where
  "run_config solve K pixel_spacing estimates clean_x clean_y uncertainty config =
     two_stage_solve solve (solver_options config)
       (build_problem K estimates clean_x clean_y uncertainty pixel_spacing)
       (initial_parameters estimates) pixel_spacing"

text \<open>
  The nested iterations of lines 437 to 725 return at the first accepted fit. The search is
  written as two recursive functions, over the configurations of one dataset and over the
  datasets, whose result is the accepted fit: the dataset, the problem, the parameters and
  the summary of the solve that was accepted.
\<close>

record AcceptedFit =
  clean_x :: "double list"
  clean_y :: "double list"
  fitted_problem :: Problem
  fitted_parameters :: Parameters
  fitted_summary :: Summary

fun try_configs ::
  "Solve \<Rightarrow> Constants \<Rightarrow> double \<Rightarrow> PowerLorentzianParameterEstimates \<Rightarrow> double list \<Rightarrow>
   double list \<Rightarrow> double \<Rightarrow> PowerLorentzianFittingConfig list \<Rightarrow> AcceptedFit option" where
  "try_configs solve K pixel_spacing estimates cx cy uncertainty [] = None"
| "try_configs solve K pixel_spacing estimates cx cy uncertainty (config # rest) =
     (case run_config solve K pixel_spacing estimates cx cy uncertainty config of
        (problem, parameters, summary) \<Rightarrow>
          if fit_accepted parameters summary
          then Some \<lparr>clean_x = cx, clean_y = cy, fitted_problem = problem,
                     fitted_parameters = parameters, fitted_summary = summary\<rparr>
          else try_configs solve K pixel_spacing estimates cx cy uncertainty rest)"

fun try_datasets ::
  "Solve \<Rightarrow> Constants \<Rightarrow> double \<Rightarrow> double \<Rightarrow> (double list \<times> double list) list \<Rightarrow>
   AcceptedFit option" where
  "try_datasets solve K center_estimate pixel_spacing [] = None"
| "try_datasets solve K center_estimate pixel_spacing ((cx, cy) # rest) =
     (if length cx < 5 then try_datasets solve K center_estimate pixel_spacing rest
      else
        let estimates = EstimatePowerLorentzianParameters cx cy center_estimate pixel_spacing in
        if \<not> est_valid estimates then try_datasets solve K center_estimate pixel_spacing rest
        else
          let max_charge = max_element cy;
              uncertainty = CalculatePowerLorentzianUncertainty K max_charge
          in case try_configs solve K pixel_spacing estimates cx cy uncertainty (configs estimates) of
               Some accepted \<Rightarrow> Some accepted
             | None \<Rightarrow> try_datasets solve K center_estimate pixel_spacing rest)"

text \<open>Lines 414 to 429: the candidate datasets, the original data last.\<close>

definition filtered_datasets ::
  "double list \<Rightarrow> double list \<Rightarrow> bool \<Rightarrow> (double list \<times> double list) list" where
  "filtered_datasets x_vals y_vals enable_outlier_filtering =
     (if enable_outlier_filtering
      then
        (let conservative_data = FilterPowerLorentzianOutliers x_vals y_vals (Fin 2.5)
         in if 5 \<le> length (fst conservative_data) then [conservative_data] else []) @
        (let lenient_data = FilterPowerLorentzianOutliers x_vals y_vals (Fin 3)
         in if 5 \<le> length (fst lenient_data) then [lenient_data] else [])
      else []) @
     [(x_vals, y_vals)]"

text \<open>The eleven outputs that the fit writes through references.\<close>

record FitOutputs =
  fit_amplitude :: double
  fit_center :: double
  fit_gamma :: double
  fit_beta :: double
  fit_vertical_offset :: double
  fit_amplitude_err :: double
  fit_center_err :: double
  fit_gamma_err :: double
  fit_beta_err :: double
  fit_vertical_offset_err :: double
  chi2_reduced :: double

definition cov_configs :: "(CovarianceAlgorithmType \<times> double) list" where
  "cov_configs =
     [(DENSE_SVD, Fin (1 / 10 ^ 14)), (DENSE_SVD, Fin (1 / 10 ^ 12)),
      (DENSE_SVD, Fin (1 / 10 ^ 10)), (SPARSE_QR, Fin (1 / 10 ^ 12))]"

text \<open>
  The loop of lines 660 to 690: a computed covariance block overwrites the five errors, and
  the loop stops at the first block whose errors pass the test. The flag is \<open>cov_success\<close>.
\<close>

fun covariance_errors ::
  "Covariance \<Rightarrow> Problem \<Rightarrow> Parameters \<Rightarrow> double \<Rightarrow> (CovarianceAlgorithmType \<times> double) list \<Rightarrow>
   FitOutputs \<Rightarrow> bool \<times> FitOutputs" where
  "covariance_errors covariance problem parameters pixel_spacing [] out = (False, out)"
| "covariance_errors covariance problem parameters pixel_spacing (cov_config # rest) out =
     (let cov_options = \<lparr>algorithm_type = fst cov_config,
                         min_reciprocal_condition_number = snd cov_config,
                         null_space_rank = 2, apply_loss_function = True\<rparr>
      in case covariance cov_options problem parameters of
           None \<Rightarrow> covariance_errors covariance problem parameters pixel_spacing rest out
         | Some covariance_matrix \<Rightarrow>
             let out = out\<lparr>fit_amplitude_err := std_sqrt \<bar>covariance_matrix 0\<bar>,
                            fit_center_err := std_sqrt \<bar>covariance_matrix 6\<bar>,
                            fit_gamma_err := std_sqrt \<bar>covariance_matrix 12\<bar>,
                            fit_beta_err := std_sqrt \<bar>covariance_matrix 18\<bar>,
                            fit_vertical_offset_err := std_sqrt \<bar>covariance_matrix 24\<bar>\<rparr>
             in if \<not> isnan (fit_amplitude_err out) \<and> \<not> isnan (fit_center_err out) \<and>
                   \<not> isnan (fit_gamma_err out) \<and> \<not> isnan (fit_beta_err out) \<and>
                   \<not> isnan (fit_vertical_offset_err out) \<and>
                   fit_amplitude_err out < Fin 10 * fit_amplitude out \<and>
                   fit_center_err out < Fin 5 * pixel_spacing
                then (True, out)
                else covariance_errors covariance problem parameters pixel_spacing rest out)"

text \<open>The degrees of freedom of line 705, and lines 643 to 706: what an accepted fit writes.\<close>

definition degrees_of_freedom :: "nat \<Rightarrow> int" where
  "degrees_of_freedom n = max 1 (int n - 5)"

definition write_results :: "Covariance \<Rightarrow> double \<Rightarrow> AcceptedFit \<Rightarrow> FitOutputs \<Rightarrow> FitOutputs" where
  "write_results covariance pixel_spacing accepted out =
     (let parameters = fitted_parameters accepted;
          out = out\<lparr>fit_amplitude := par_A parameters,
                     fit_center := par_m parameters,
                     fit_gamma := \<bar>par_gamma parameters\<bar>,
                     fit_beta := par_beta parameters,
                     fit_vertical_offset := par_B parameters\<rparr>;
          (cov_success, out) =
            covariance_errors covariance (fitted_problem accepted) parameters pixel_spacing
              cov_configs out;
          out = (if \<not> cov_success
                 then
                   let data_stats =
                         CalculateRobustStatisticsPowerLorentzian (clean_x accepted) (clean_y accepted)
                   in out\<lparr>fit_amplitude_err :=
                             std_max (Fin 0.02 * fit_amplitude out) (Fin 0.1 * mad data_stats),
                           fit_center_err :=
                             std_max (Fin 0.02 * pixel_spacing) (fit_gamma out / Fin 10),
                           fit_gamma_err :=
                             std_max (Fin 0.05 * fit_gamma out) (Fin 0.01 * pixel_spacing),
                           fit_beta_err := std_max (Fin 0.1 * fit_beta out) (Fin 0.05),
                           fit_vertical_offset_err :=
                             std_max (Fin 0.1 * \<bar>fit_vertical_offset out\<bar>)
                                     (Fin 0.05 * mad data_stats)\<rparr>
                 else out);
          chi2 = cost_value (final_cost (fitted_summary accepted)) * Fin 2;
          dof = degrees_of_freedom (length (clean_x accepted))
      in out\<lparr>chi2_reduced := chi2 / Fin (of_int dof)\<rparr>)"

text \<open>
  The fit returns its success flag; the outputs are passed in and returned, so that what the
  caller sees after the call is the second component.
\<close>

definition FitPowerLorentzianCeres ::
  "Solve \<Rightarrow> Covariance \<Rightarrow> Constants \<Rightarrow> double list \<Rightarrow> double list \<Rightarrow> double \<Rightarrow> double \<Rightarrow>
   FitOutputs \<Rightarrow> bool \<Rightarrow> bool \<times> FitOutputs" where
  "FitPowerLorentzianCeres solve covariance K x_vals y_vals center_estimate pixel_spacing out
       enable_outlier_filtering =
     (if length x_vals \<noteq> length y_vals \<or> length x_vals < 5 then (False, out)
      else
        case try_datasets solve K center_estimate pixel_spacing
               (filtered_datasets x_vals y_vals enable_outlier_filtering) of
          Some accepted \<Rightarrow> (True, write_results covariance pixel_spacing accepted out)
        | None \<Rightarrow> (False, out))"

subsection \<open>The two-dimensional coordinator\<close>

text \<open>
  \<open>std::map<double, std::vector<std::pair<double, double>>>\<close>: the entries in ascending
  order of their keys. \<open>map_find\<close> is \<open>find\<close>, and \<open>map_push\<close> is \<open>operator[]\<close> followed
  by \<open>push_back\<close>: both walk to the first key that is not less than the one looked up.
\<close>

type_synonym line_map = "(double \<times> (double \<times> double) list) list"

fun map_find :: "double \<Rightarrow> line_map \<Rightarrow> (double \<times> double) list option" where
  "map_find k [] = None"
| "map_find k ((key, points) # m) =
     (if key < k then map_find k m else if k < key then None else Some points)"

fun map_push :: "double \<Rightarrow> double \<times> double \<Rightarrow> line_map \<Rightarrow> line_map" where
  "map_push k point [] = [(k, [point])]"
| "map_push k point ((key, points) # m) =
     (if key < k then (key, points) # map_push k point m
      else if k < key then (k, [point]) # (key, points) # m
      else (key, points @ [point]) # m)"

text \<open>
  The search of lines 785 to 791: the point joins the first line, in key order, whose key is
  within the tolerance; \<open>None\<close> when there is none (\<open>found_row\<close> stays false).
\<close>

fun add_to_line :: "double \<Rightarrow> double \<Rightarrow> double \<times> double \<Rightarrow> line_map \<Rightarrow> line_map option" where
  "add_to_line tolerance k point [] = None"
| "add_to_line tolerance k point ((key, points) # m) =
     (if \<bar>key - k\<bar> < tolerance then Some ((key, points @ [point]) # m)
      else map_option ((#) (key, points)) (add_to_line tolerance k point m))"

definition group_into :: "double \<Rightarrow> double \<Rightarrow> double \<times> double \<Rightarrow> line_map \<Rightarrow> line_map" where
  "group_into tolerance k point m =
     (case add_to_line tolerance k point m of Some m' \<Rightarrow> m' | None \<Rightarrow> map_push k point m)"

definition group_points ::
  "double \<Rightarrow> double list \<Rightarrow> double list \<Rightarrow> double list \<Rightarrow> line_map \<times> line_map" where
  "group_points tolerance x_coords y_coords charge_values =
     foldl (\<lambda>(rows_data, cols_data) (x, y, charge).
              if charge \<le> Fin 0 then (rows_data, cols_data)
              else (group_into tolerance y (x, charge) rows_data,
                    group_into tolerance x (y, charge) cols_data))
           ([], []) (zip x_coords (zip y_coords charge_values))"

text \<open>Lines 811 to 829: the key, among the lines of at least five points, nearest the estimate.\<close>

definition best_line :: "double \<Rightarrow> line_map \<Rightarrow> double" where
  "best_line center_estimate m =
     fst (foldl (\<lambda>(best, min_dist) (key, points).
                   let dist = \<bar>key - center_estimate\<bar>
                   in if dist < min_dist \<and> 5 \<le> length points then (key, dist)
                      else (best, min_dist))
                (center_estimate, DBL_MAX) m)"

text \<open>\<open>operator<\<close> of \<open>std::pair<double, double>\<close>, the order of the sort of a line.\<close>

definition pair_less :: "double \<times> double \<Rightarrow> double \<times> double \<Rightarrow> bool" where
  "pair_less p q \<longleftrightarrow> fst p < fst q \<or> (\<not> fst q < fst p \<and> snd p < snd q)"

text \<open>
  The line that is fitted, sorted as the coordinator sorts it in place: \<open>None\<close> when the map
  has no entry for the key or the entry has fewer than five points.
\<close>

definition line_to_fit :: "double \<Rightarrow> line_map \<Rightarrow> (double \<times> double) list option" where
  "line_to_fit best m =
     (case map_find best m of
        Some points \<Rightarrow> if 5 \<le> length points then Some (sort_by pair_less points) else None
      | None \<Rightarrow> None)"

definition pseudo_p_value :: "double \<Rightarrow> double" where
  "pseudo_p_value chi2red =
     (if Fin 0 < chi2red then Fin 1 - std_min (Fin 1) (chi2red / Fin 10) else Fin 0)"

definition max_charge_of_line :: "(double \<times> double) list \<Rightarrow> double" where
  "max_charge_of_line line = foldl (\<lambda>max_charge point. std_max max_charge (snd point)) (Fin 0) line"

text \<open>
  The result structure is declared in the header. Its members \<open>x_amplitude\<close> to
  \<open>x_chi2red\<close>, which the coordinator passes by reference to the one-dimensional fit, are
  the record \<open>x_fit\<close>, and likewise for \<open>y\<close>. What a default-constructed result holds is a
  parameter of the coordinator.
\<close>

record PowerLorentzianFit2DResultsCeres =
  x_fit :: FitOutputs
  x_dof :: int
  x_pp :: double
  x_row_pixel_coords :: "double list"
  x_row_charge_values :: "double list"
  x_row_charge_errors :: "double list"
  y_fit :: FitOutputs
  y_dof :: int
  y_pp :: double
  y_col_pixel_coords :: "double list"
  y_col_charge_values :: "double list"
  y_col_charge_errors :: "double list"
  fit_successful :: bool
  x_charge_uncertainty :: double
  y_charge_uncertainty :: double

text \<open>Lines 835 to 869 and 872 to 906: the fit of the central row and of the central column.\<close>

definition fit_x_direction ::
  "Solve \<Rightarrow> Covariance \<Rightarrow> Constants \<Rightarrow> (double \<times> double) list option \<Rightarrow> double \<Rightarrow> double \<Rightarrow>
   bool \<Rightarrow> PowerLorentzianFit2DResultsCeres \<Rightarrow> bool \<times> PowerLorentzianFit2DResultsCeres" where
  "fit_x_direction solve covariance K row center_x_estimate pixel_spacing
       enable_outlier_filtering result =
     (case row of
        None \<Rightarrow> (False, result)
      | Some row_data \<Rightarrow>
          let x_vals = map fst row_data;
              y_vals = map snd row_data;
              (x_fit_success, out) =
                FitPowerLorentzianCeres solve covariance K x_vals y_vals center_x_estimate
                  pixel_spacing (x_fit result) enable_outlier_filtering;
              result = result\<lparr>x_fit := out\<rparr>;
              result = result\<lparr>x_dof := max 1 (int (length x_vals) - 5)\<rparr>;
              result = result\<lparr>x_pp := pseudo_p_value (chi2_reduced (x_fit result))\<rparr>;
              result = result\<lparr>x_row_pixel_coords := x_vals, x_row_charge_values := y_vals,
                               x_row_charge_errors := []\<rparr>
          in (x_fit_success, result))"

definition fit_y_direction ::
  "Solve \<Rightarrow> Covariance \<Rightarrow> Constants \<Rightarrow> (double \<times> double) list option \<Rightarrow> double \<Rightarrow> double \<Rightarrow>
   bool \<Rightarrow> PowerLorentzianFit2DResultsCeres \<Rightarrow> bool \<times> PowerLorentzianFit2DResultsCeres" where
  "fit_y_direction solve covariance K col center_y_estimate pixel_spacing
       enable_outlier_filtering result =
     (case col of
        None \<Rightarrow> (False, result)
      | Some col_data \<Rightarrow>
          let x_vals = map fst col_data;
              y_vals = map snd col_data;
              (y_fit_success, out) =
                FitPowerLorentzianCeres solve covariance K x_vals y_vals center_y_estimate
                  pixel_spacing (y_fit result) enable_outlier_filtering;
              result = result\<lparr>y_fit := out\<rparr>;
              result = result\<lparr>y_dof := max 1 (int (length x_vals) - 5)\<rparr>;
              result = result\<lparr>y_pp := pseudo_p_value (chi2_reduced (y_fit result))\<rparr>;
              result = result\<lparr>y_col_pixel_coords := x_vals, y_col_charge_values := y_vals,
                               y_col_charge_errors := []\<rparr>
          in (y_fit_success, result))"

text \<open>Lines 912 to 933: the charge uncertainties of the two directions.\<close>

definition store_charge_uncertainties ::
  "Constants \<Rightarrow> bool \<Rightarrow> (double \<times> double) list option \<Rightarrow> bool \<Rightarrow> (double \<times> double) list option \<Rightarrow>
   PowerLorentzianFit2DResultsCeres \<Rightarrow> PowerLorentzianFit2DResultsCeres" where
  "store_charge_uncertainties K x_fit_success row y_fit_success col result =
     (if ENABLE_VERTICAL_CHARGE_UNCERTAINTIES K
      then
        let result =
              (case row of
                 Some row_data \<Rightarrow>
                   if x_fit_success
                   then result\<lparr>x_charge_uncertainty := Fin 0.05 * max_charge_of_line row_data\<rparr>
                   else result
               | None \<Rightarrow> result)
        in (case col of
              Some col_data \<Rightarrow>
                if y_fit_success
                then result\<lparr>y_charge_uncertainty := Fin 0.05 * max_charge_of_line col_data\<rparr>
                else result
            | None \<Rightarrow> result)
      else result\<lparr>x_charge_uncertainty := Fin 0, y_charge_uncertainty := Fin 0\<rparr>)"

definition Fit2DPowerLorentzianCeres ::
  "Solve \<Rightarrow> Covariance \<Rightarrow> Constants \<Rightarrow> PowerLorentzianFit2DResultsCeres \<Rightarrow>
   double list \<Rightarrow> double list \<Rightarrow> double list \<Rightarrow> double \<Rightarrow> double \<Rightarrow> double \<Rightarrow> bool \<Rightarrow>
   PowerLorentzianFit2DResultsCeres" where
  "Fit2DPowerLorentzianCeres solve covariance K default_result x_coords y_coords charge_values
       center_x_estimate center_y_estimate pixel_spacing enable_outlier_filtering =
     (let result = default_result in
      if length x_coords \<noteq> length y_coords \<or> length x_coords \<noteq> length charge_values
      then result
      else if length x_coords < 5 then result
      else
        let tolerance = pixel_spacing * Fin 0.1;
            (rows_data, cols_data) = group_points tolerance x_coords y_coords charge_values;
            best_row_y = best_line center_y_estimate rows_data;
            best_col_x = best_line center_x_estimate cols_data;
            row = line_to_fit best_row_y rows_data;
            col = line_to_fit best_col_x cols_data;
            (x_fit_success, result) =
              fit_x_direction solve covariance K row center_x_estimate pixel_spacing
                enable_outlier_filtering result;
            (y_fit_success, result) =
              fit_y_direction solve covariance K col center_y_estimate pixel_spacing
                enable_outlier_filtering result;
            result = result\<lparr>fit_successful := x_fit_success \<and> y_fit_success\<rparr>
        in store_charge_uncertainties K x_fit_success row y_fit_success col result)"

subsection \<open>Outlier removal on the point set\<close>

record PowerLorentzianOutlierRemovalResult =
  filtered_x_coords :: "double list"
  filtered_y_coords :: "double list"
  filtered_charge_values :: "double list"
  outliers_removed :: int
  filtering_applied :: bool
  success :: bool

text \<open>Lines 1002 to 1008: the flags \<open>is_outlier\<close>.\<close>

definition is_outlier :: "DataStatistics \<Rightarrow> double \<Rightarrow> double list \<Rightarrow> bool list" where
  "is_outlier stats sigma_threshold charge_values =
     (let outlier_threshold = sigma_threshold * mad stats
      in map (\<lambda>charge. let deviation = \<bar>charge - median stats\<bar> in outlier_threshold < deviation)
             charge_values)"

text \<open>Lines 1028 to 1034: the elements whose flag is not set.\<close>

fun keep_unflagged :: "bool list \<Rightarrow> 'a list \<Rightarrow> 'a list" where
  "keep_unflagged (flag # flags) (v # vs) =
     (if \<not> flag then v # keep_unflagged flags vs else keep_unflagged flags vs)"
| "keep_unflagged _ _ = []"

definition keep_original ::
  "double list \<Rightarrow> double list \<Rightarrow> double list \<Rightarrow> bool \<Rightarrow> PowerLorentzianOutlierRemovalResult \<Rightarrow>
   PowerLorentzianOutlierRemovalResult" where
  "keep_original x_coords y_coords charge_values ok result =
     result\<lparr>filtered_x_coords := x_coords, filtered_y_coords := y_coords,
            filtered_charge_values := charge_values, outliers_removed := 0,
            filtering_applied := False, success := ok\<rparr>"

text \<open>
  The result structure is declared in the header: the values of its three scalar members
  after default construction are those of the parameter \<open>default_result\<close>; its three
  vectors are empty, as every default-constructed vector is. The count of the flags is an
  \<open>int\<close> and the size an unsigned integer; the count never exceeds the size, so their
  difference is the difference of natural numbers.
\<close>

definition RemovePowerLorentzianOutliers ::
  "PowerLorentzianOutlierRemovalResult \<Rightarrow> double list \<Rightarrow> double list \<Rightarrow> double list \<Rightarrow>
   bool \<Rightarrow> double \<Rightarrow> PowerLorentzianOutlierRemovalResult" where
  "RemovePowerLorentzianOutliers default_result x_coords y_coords charge_values
       enable_outlier_removal sigma_threshold =
     (let result = default_result\<lparr>filtered_x_coords := [], filtered_y_coords := [],
                                  filtered_charge_values := []\<rparr> in
      if length x_coords \<noteq> length y_coords \<or> length x_coords \<noteq> length charge_values
      then result
      else if \<not> enable_outlier_removal
      then keep_original x_coords y_coords charge_values True result
      else if length charge_values < 5
      then keep_original x_coords y_coords charge_values True result
      else
        let stats = CalculateRobustStatisticsPowerLorentzian x_coords charge_values in
        if \<not> valid stats then keep_original x_coords y_coords charge_values False result
        else
          let flags = is_outlier stats sigma_threshold charge_values;
              outlier_count = length (filter (\<lambda>flag. flag) flags)
          in if length charge_values - outlier_count < 5
             then keep_original x_coords y_coords charge_values True result
             else result\<lparr>filtered_x_coords := keep_unflagged flags x_coords,
                         filtered_y_coords := keep_unflagged flags y_coords,
                         filtered_charge_values := keep_unflagged flags charge_values,
                         outliers_removed := int outlier_count,
                         filtering_applied := True, success := True\<rparr>)"

subsection \<open>The diagonal coordinator\<close>

text \<open>
  As for the two-dimensional result, the eleven members that each sub-fit writes through
  references are one record; \<open>diag_fit_successful\<close> is the member \<open>fit_successful\<close>.
\<close>

record DiagonalPowerLorentzianFitResultsCeres =
  main_diag_x_fit :: FitOutputs
  main_diag_x_fit_successful :: bool
  main_diag_x_dof :: int
  main_diag_x_pp :: double
  main_diag_y_fit :: FitOutputs
  main_diag_y_fit_successful :: bool
  main_diag_y_dof :: int
  main_diag_y_pp :: double
  sec_diag_x_fit :: FitOutputs
  sec_diag_x_fit_successful :: bool
  sec_diag_x_dof :: int
  sec_diag_x_pp :: double
  sec_diag_y_fit :: FitOutputs
  sec_diag_y_fit_successful :: bool
  sec_diag_y_dof :: int
  sec_diag_y_pp :: double
  diag_fit_successful :: bool

text \<open>Lines 1086 to 1099: the point set, filtered when the filter ran and applied.\<close>

definition diagonal_input ::
  "PowerLorentzianOutlierRemovalResult \<Rightarrow> double list \<Rightarrow> double list \<Rightarrow> double list \<Rightarrow> bool \<Rightarrow>
   double list \<times> double list \<times> double list" where
  "diagonal_input default_removal x_coords y_coords charge_values enable_outlier_filtering =
     (if enable_outlier_filtering
      then
        let filter_result =
              RemovePowerLorentzianOutliers default_removal x_coords y_coords charge_values
                True (Fin 2.5)
        in if success filter_result \<and> filtering_applied filter_result
           then (filtered_x_coords filter_result, filtered_y_coords filter_result,
                 filtered_charge_values filter_result)
           else (x_coords, y_coords, charge_values)
      else (x_coords, y_coords, charge_values))"

text \<open>
  Lines 1112 to 1135: the points of the main and of the secondary diagonal, each with its
  coordinate along the diagonal. The vectors \<open>main_diag_x_data\<close> and \<open>main_diag_y_data\<close>
  receive the same elements, and so do the two of the secondary diagonal.
\<close>

definition diagonal_data ::
  "double \<Rightarrow> double \<Rightarrow> double \<Rightarrow> double list \<Rightarrow> double list \<Rightarrow> double list \<Rightarrow>
   (double \<times> double) list \<times> (double \<times> double) list" where
  "diagonal_data diagonal_tolerance center_x_estimate center_y_estimate xs ys charges =
     foldl (\<lambda>(main_diag_data, sec_diag_data) (x, y, charge).
              if charge \<le> Fin 0 then (main_diag_data, sec_diag_data)
              else
                let dx = x - center_x_estimate;
                    dy = y - center_y_estimate
                in ((if \<bar>dx - dy\<bar> < diagonal_tolerance
                     then main_diag_data @ [((dx + dy) / Fin 2, charge)] else main_diag_data),
                    (if \<bar>dx + dy\<bar> < diagonal_tolerance
                     then sec_diag_data @ [((dx - dy) / Fin 2, charge)] else sec_diag_data)))
           ([], []) (zip xs (zip ys charges))"

text \<open>
  One of the four blocks of lines 1138 to 1239: with fewer than five points nothing is
  written (\<open>None\<close>); otherwise the sorted data are fitted and the block yields the success
  flag, the outputs, the degrees of freedom and the pseudo p-value.
\<close>

definition diagonal_sub_fit ::
  "Solve \<Rightarrow> Covariance \<Rightarrow> Constants \<Rightarrow> (double \<times> double) list \<Rightarrow> double \<Rightarrow> bool \<Rightarrow> FitOutputs \<Rightarrow>
   (bool \<times> FitOutputs \<times> int \<times> double) option" where
  "diagonal_sub_fit solve covariance K diag_data diag_pixel_spacing enable_outlier_filtering out =
     (if 5 \<le> length diag_data
      then
        let sorted_data = sort_by pair_less diag_data;
            x_vals = map fst sorted_data;
            y_vals = map snd sorted_data;
            (fit_ok, out) =
              FitPowerLorentzianCeres solve covariance K x_vals y_vals (Fin 0) diag_pixel_spacing
                out enable_outlier_filtering
        in Some (fit_ok, out, max 1 (int (length x_vals) - 5), pseudo_p_value (chi2_reduced out))
      else None)"

definition FitDiagonalPowerLorentzianCeres ::
  "Solve \<Rightarrow> Covariance \<Rightarrow> Constants \<Rightarrow> DiagonalPowerLorentzianFitResultsCeres \<Rightarrow>
   PowerLorentzianOutlierRemovalResult \<Rightarrow>
   double list \<Rightarrow> double list \<Rightarrow> double list \<Rightarrow> double \<Rightarrow> double \<Rightarrow> double \<Rightarrow> bool \<Rightarrow>
   DiagonalPowerLorentzianFitResultsCeres" where
  "FitDiagonalPowerLorentzianCeres solve covariance K default_result default_removal
       x_coords y_coords charge_values center_x_estimate center_y_estimate pixel_spacing
       enable_outlier_filtering =
     (let result = default_result in
      if length x_coords \<noteq> length y_coords \<or> length x_coords \<noteq> length charge_values
      then result
      else if length x_coords < 5 then result
      else
        let (filtered_x, filtered_y, filtered_charge) =
              diagonal_input default_removal x_coords y_coords charge_values
                enable_outlier_filtering;
            diag_pixel_spacing = pixel_spacing * Fin 1.41421356237;
            diagonal_tolerance = pixel_spacing * Fin 0.5;
            (main_diag_data, sec_diag_data) =
              diagonal_data diagonal_tolerance center_x_estimate center_y_estimate
                filtered_x filtered_y filtered_charge;
            result =
              (case diagonal_sub_fit solve covariance K main_diag_data diag_pixel_spacing
                      enable_outlier_filtering (main_diag_x_fit result) of
                 Some (ok, out, dof, pp) \<Rightarrow>
                   result\<lparr>main_diag_x_fit := out, main_diag_x_fit_successful := ok,
                          main_diag_x_dof := dof, main_diag_x_pp := pp\<rparr>
               | None \<Rightarrow> result);
            result =
              (case diagonal_sub_fit solve covariance K main_diag_data diag_pixel_spacing
                      enable_outlier_filtering (main_diag_y_fit result) of
                 Some (ok, out, dof, pp) \<Rightarrow>
                   result\<lparr>main_diag_y_fit := out, main_diag_y_fit_successful := ok,
                          main_diag_y_dof := dof, main_diag_y_pp := pp\<rparr>
               | None \<Rightarrow> result);
            result =
              (case diagonal_sub_fit solve covariance K sec_diag_data diag_pixel_spacing
                      enable_outlier_filtering (sec_diag_x_fit result) of
                 Some (ok, out, dof, pp) \<Rightarrow>
                   result\<lparr>sec_diag_x_fit := out, sec_diag_x_fit_successful := ok,
                          sec_diag_x_dof := dof, sec_diag_x_pp := pp\<rparr>
               | None \<Rightarrow> result);
            result =
              (case diagonal_sub_fit solve covariance K sec_diag_data diag_pixel_spacing
                      enable_outlier_filtering (sec_diag_y_fit result) of
                 Some (ok, out, dof, pp) \<Rightarrow>
                   result\<lparr>sec_diag_y_fit := out, sec_diag_y_fit_successful := ok,
                          sec_diag_y_dof := dof, sec_diag_y_pp := pp\<rparr>
               | None \<Rightarrow> result)
        in result\<lparr>diag_fit_successful :=
                    main_diag_x_fit_successful result \<and> main_diag_y_fit_successful result \<and>
                    sec_diag_x_fit_successful result \<and> sec_diag_y_fit_successful result\<rparr>)"


subsection \<open>Names for what the coordinators fit\<close>

text \<open>
  The row and the column that the two-dimensional coordinator hands to the one-dimensional
  fit, the two diagonals that the diagonal coordinator builds, and the success flag of one
  of its four blocks (false when the block is skipped).
\<close>

definition selected_row :: "double list \<Rightarrow> double list \<Rightarrow> double list \<Rightarrow> double \<Rightarrow> double \<Rightarrow> (double \<times> double) list option" where
  "selected_row x_coords y_coords charge_values center_y_estimate pixel_spacing =
     (let rows_data = fst (group_points (pixel_spacing * Fin 0.1) x_coords y_coords charge_values)
      in line_to_fit (best_line center_y_estimate rows_data) rows_data)"

definition selected_col :: "double list \<Rightarrow> double list \<Rightarrow> double list \<Rightarrow> double \<Rightarrow> double \<Rightarrow> (double \<times> double) list option" where
  "selected_col x_coords y_coords charge_values center_x_estimate pixel_spacing =
     (let cols_data = snd (group_points (pixel_spacing * Fin 0.1) x_coords y_coords charge_values)
      in line_to_fit (best_line center_x_estimate cols_data) cols_data)"

definition diagonal_lines ::
  "PowerLorentzianOutlierRemovalResult \<Rightarrow> double list \<Rightarrow> double list \<Rightarrow> double list \<Rightarrow>
   double \<Rightarrow> double \<Rightarrow> double \<Rightarrow> bool \<Rightarrow> (double \<times> double) list \<times> (double \<times> double) list" where
  "diagonal_lines default_removal x_coords y_coords charge_values center_x_estimate
       center_y_estimate pixel_spacing enable_outlier_filtering =
     (case diagonal_input default_removal x_coords y_coords charge_values enable_outlier_filtering of
        (filtered_x, filtered_y, filtered_charge) \<Rightarrow>
          diagonal_data (pixel_spacing * Fin 0.5) center_x_estimate center_y_estimate
            filtered_x filtered_y filtered_charge)"

definition sub_fit_succeeds :: "(bool \<times> FitOutputs \<times> int \<times> double) option \<Rightarrow> bool" where
  "sub_fit_succeeds r = (case r of Some (ok, out, dof, pp) \<Rightarrow> ok | None \<Rightarrow> False)"

subsection \<open>Sample values\<close>

text \<open>
  Values at which the theorems below are applied: a solver that reports convergence at
  given parameter values with a given finite final cost, a covariance computation that always
  fails,
  constants, and zero-initialised outputs and results.
\<close>

definition finite_cost :: "real \<Rightarrow> cost" where
  "finite_cost c = make_cost (Fin \<bar>c\<bar>)"

definition instant_solve :: "Parameters \<Rightarrow> cost \<Rightarrow> Solve" where
  "instant_solve fitted cost =
     (\<lambda>options problem parameters.
        (fitted, \<lparr>termination_type = CONVERGENCE, final_cost = cost\<rparr>))"

definition sample_parameters :: Parameters where
  "sample_parameters =
     \<lparr>par_A = Fin 2, par_m = Fin 0, par_gamma = Fin 1, par_beta = Fin 1, par_B = Fin 0\<rparr>"

definition no_covariance :: Covariance where
  "no_covariance = (\<lambda>cov_options problem parameters. None)"

definition sample_constants :: Constants where
  "sample_constants =
     \<lparr>ENABLE_VERTICAL_CHARGE_UNCERTAINTIES = True, MIN_UNCERTAINTY_VALUE = Fin (1 / 10 ^ 6)\<rparr>"

definition zero_outputs :: FitOutputs where
  "zero_outputs =
     \<lparr>fit_amplitude = Fin 0, fit_center = Fin 0, fit_gamma = Fin 0, fit_beta = Fin 0,
      fit_vertical_offset = Fin 0, fit_amplitude_err = Fin 0, fit_center_err = Fin 0,
      fit_gamma_err = Fin 0, fit_beta_err = Fin 0, fit_vertical_offset_err = Fin 0,
      chi2_reduced = Fin 0\<rparr>"

definition zero_2d_result :: PowerLorentzianFit2DResultsCeres where
  "zero_2d_result =
     \<lparr>x_fit = zero_outputs, x_dof = 0, x_pp = Fin 0, x_row_pixel_coords = [],
      x_row_charge_values = [], x_row_charge_errors = [],
      y_fit = zero_outputs, y_dof = 0, y_pp = Fin 0, y_col_pixel_coords = [],
      y_col_charge_values = [], y_col_charge_errors = [],
      fit_successful = False, x_charge_uncertainty = Fin 0, y_charge_uncertainty = Fin 0\<rparr>"

definition zero_removal_result :: PowerLorentzianOutlierRemovalResult where
  "zero_removal_result =
     \<lparr>filtered_x_coords = [], filtered_y_coords = [], filtered_charge_values = [],
      outliers_removed = 0, filtering_applied = False, success = False\<rparr>"

definition zero_diagonal_result :: DiagonalPowerLorentzianFitResultsCeres where
  "zero_diagonal_result =
     \<lparr>main_diag_x_fit = zero_outputs, main_diag_x_fit_successful = False, main_diag_x_dof = 0,
      main_diag_x_pp = Fin 0,
      main_diag_y_fit = zero_outputs, main_diag_y_fit_successful = False, main_diag_y_dof = 0,
      main_diag_y_pp = Fin 0,
      sec_diag_x_fit = zero_outputs, sec_diag_x_fit_successful = False, sec_diag_x_dof = 0,
      sec_diag_x_pp = Fin 0,
      sec_diag_y_fit = zero_outputs, sec_diag_y_fit_successful = False, sec_diag_y_dof = 0,
      sec_diag_y_pp = Fin 0,
      diag_fit_successful = False\<rparr>"

text \<open>
  Two point sets on a grid of pitch 1 around the origin: a cross of a row and a column of
  five points each, and the row alone.
\<close>

abbreviation cross_x :: "double list" where
  "cross_x \<equiv> [Fin (-2), Fin (-1), Fin 0, Fin 1, Fin 2, Fin 0, Fin 0, Fin 0, Fin 0]"

abbreviation cross_y :: "double list" where
  "cross_y \<equiv> [Fin 0, Fin 0, Fin 0, Fin 0, Fin 0, Fin (-2), Fin (-1), Fin 1, Fin 2]"

abbreviation cross_charge :: "double list" where
  "cross_charge \<equiv> [Fin 1, Fin 2, Fin 3, Fin 2, Fin 1, Fin 1, Fin 2, Fin 2, Fin 1]"

abbreviation row_x :: "double list" where
  "row_x \<equiv> [Fin (-2), Fin (-1), Fin 0, Fin 1, Fin 2]"

abbreviation row_y :: "double list" where
  "row_y \<equiv> [Fin 0, Fin 0, Fin 0, Fin 0, Fin 0]"

abbreviation row_charge :: "double list" where
  "row_charge \<equiv> [Fin 1, Fin 2, Fin 3, Fin 2, Fin 1]"

text \<open>A row of eight points on the same grid whose last charge is an outlier.\<close>

abbreviation line_x :: "double list" where
  "line_x \<equiv> [Fin 0, Fin 1, Fin 2, Fin 3, Fin 4, Fin 5, Fin 6, Fin 7]"

abbreviation line_y :: "double list" where
  "line_y \<equiv> [Fin 0, Fin 0, Fin 0, Fin 0, Fin 0, Fin 0, Fin 0, Fin 0]"

abbreviation line_charge :: "double list" where
  "line_charge \<equiv> [Fin 1, Fin 2, Fin 3, Fin 4, Fin 3, Fin 2, Fin 1, Fin 1000]"

text \<open>
  A point set on the same grid with a row of seven points, a column of five points and two
  diagonals of five points through the origin.
\<close>

abbreviation star_x :: "double list" where
  "star_x \<equiv> [Fin (-3), Fin (-2), Fin (-1), Fin 0, Fin 1, Fin 2, Fin 3,
               Fin 0, Fin 0, Fin 0, Fin 0,
               Fin (-2), Fin (-1), Fin 1, Fin 2,
               Fin (-2), Fin (-1), Fin 1, Fin 2]"

abbreviation star_y :: "double list" where
  "star_y \<equiv> [Fin 0, Fin 0, Fin 0, Fin 0, Fin 0, Fin 0, Fin 0,
               Fin (-2), Fin (-1), Fin 1, Fin 2,
               Fin (-2), Fin (-1), Fin 1, Fin 2,
               Fin 2, Fin 1, Fin (-1), Fin (-2)]"

abbreviation star_charge :: "double list" where
  "star_charge \<equiv> [Fin 1, Fin 2, Fin 3, Fin 4, Fin 3, Fin 2, Fin 1,
                    Fin 2, Fin 3, Fin 3, Fin 2,
                    Fin 2, Fin 3, Fin 3, Fin 2,
                    Fin 2, Fin 3, Fin 3, Fin 2]"

text \<open>
  A profile of thirteen points of which seven charges have the magnitude \<open>3 * 2^1022\<close>, a
  finite double, four negative and three positive, and a profile of seven points with one NaN
  charge.
\<close>

definition large :: real where
  "large = 3 * 2 ^ 1022"

abbreviation extreme_x :: "double list" where
  "extreme_x \<equiv> [Fin 0, Fin 1, Fin 2, Fin 3, Fin 4, Fin 5, Fin 6, Fin 7, Fin 8, Fin 9, Fin 10,
                  Fin 11, Fin 12]"

abbreviation extreme_charge :: "double list" where
  "extreme_charge \<equiv>
     [Fin (- large), Fin (- large), Fin (- large), Fin (- large), Fin 0, Fin 0, Fin 0,
      Fin (3 / 1000000000000), Fin (3 / 1000000000000), Fin (3 / 1000000000000),
      Fin large, Fin large, Fin large]"

abbreviation gap_x :: "double list" where
  "gap_x \<equiv> [Fin 0, Fin 1, Fin 2, Fin 3, Fin 4, Fin 5, Fin 6]"

abbreviation gap_charge :: "double list" where
  "gap_charge \<equiv> [Fin 10, NaN, Fin 10, Fin 11, Fin 15, Fin 15, Fin 15]"

section \<open>Properties\<close>

subsection \<open>Evaluation rules\<close>

lemma round_small: "\<bar>r\<bar> \<le> 2 ^ 64 \<Longrightarrow> round_to_double r = Fin r"
  by (auto simp: round_to_double_def overflow_bound_def)

lemma finite_cost_value: "cost_value (finite_cost c) = Fin \<bar>c\<bar>"
  by (simp add: finite_cost_def make_cost_inverse)

lemma cost_nonnegative: "Fin 0 \<le> cost_value c"
  using cost_value[of c] by simp

lemmas double_simps = minus_double_def divide_double_def std_max_def std_min_def round_small

lemmas vector_simps =
  min_element_def max_element_def accumulate_def std_sort_def insertion_step_def

lemmas statistics_simps =
  CalculateRobustStatisticsPowerLorentzian_def median_of_sorted_def raw_mad_def safeguard_mad_def
  weighted_sums_def Let_def

lemmas estimator_simps =
  method1_estimates_def method1_accepted_def method2_estimates_def method2_accepted_def
  spread_sums_def


lemmas grouping_simps =
  selected_row_def selected_col_def group_points_def group_into_def best_line_def line_to_fit_def
  pair_less_def insertion_step_def DBL_MAX_def Let_def

lemmas filter_simps = FilterPowerLorentzianOutliers_def lenient_retry_def mad_pass_def

subsection \<open>Robust statistics\<close>

lemma safeguard_mad_floor: "isfinite (safeguard_mad m sd) \<and> d1e_12 \<le> safeguard_mad m sd"
  by (cases m; cases sd) (auto simp: safeguard_mad_def)

lemma statistics_valid_iff:
  "valid (CalculateRobustStatisticsPowerLorentzian x_vals y_vals) \<longleftrightarrow>
     length x_vals = length y_vals \<and> x_vals \<noteq> []"
  by (auto simp: CalculateRobustStatisticsPowerLorentzian_def invalid_statistics_def Let_def
           split: prod.splits)

lemma statistics_mad:
  "length x_vals = length y_vals \<Longrightarrow> x_vals \<noteq> [] \<Longrightarrow>
   mad (CalculateRobustStatisticsPowerLorentzian x_vals y_vals) =
     safeguard_mad (raw_mad y_vals (median (CalculateRobustStatisticsPowerLorentzian x_vals y_vals)))
       (std_dev (CalculateRobustStatisticsPowerLorentzian x_vals y_vals))"
  by (simp add: CalculateRobustStatisticsPowerLorentzian_def Let_def split: prod.splits)

lemma statistics_median:
  "length x_vals = length y_vals \<Longrightarrow> x_vals \<noteq> [] \<Longrightarrow>
   median (CalculateRobustStatisticsPowerLorentzian x_vals y_vals) =
     median_of_sorted (std_sort y_vals)"
  by (simp add: CalculateRobustStatisticsPowerLorentzian_def Let_def split: prod.splits)

lemma statistics_std_dev:
  "length x_vals = length y_vals \<Longrightarrow> x_vals \<noteq> [] \<Longrightarrow>
   std_dev (CalculateRobustStatisticsPowerLorentzian x_vals y_vals) =
     std_sqrt (foldl (\<lambda>v val. v + (val - accumulate y_vals / of_size (length y_vals)) *
                                     (val - accumulate y_vals / of_size (length y_vals)))
                 (Fin 0) y_vals / of_size (length y_vals))"
  by (simp add: CalculateRobustStatisticsPowerLorentzian_def Let_def split: prod.splits)

text \<open>
  Claim C2. For equal-length non-empty inputs the statistics are valid and the MAD is finite
  and at least \<open>1e-12\<close>: it is the raw MAD when that is finite and not below \<open>1e-12\<close>,
  else the standard deviation when that is finite and above \<open>1e-12\<close>, else \<open>1e-12\<close>.
  For inputs of different lengths or empty inputs the result is invalid. The function is
  total: it returns on every input.
\<close>

theorem robust_statistics_mad_floor:
  "(length x_vals = length y_vals \<and> x_vals \<noteq> [] \<longrightarrow>
      valid (CalculateRobustStatisticsPowerLorentzian x_vals y_vals) \<and>
      isfinite (mad (CalculateRobustStatisticsPowerLorentzian x_vals y_vals)) \<and>
      d1e_12 \<le> mad (CalculateRobustStatisticsPowerLorentzian x_vals y_vals) \<and>
      mad (CalculateRobustStatisticsPowerLorentzian x_vals y_vals) =
        (let raw = raw_mad y_vals (median (CalculateRobustStatisticsPowerLorentzian x_vals y_vals));
             sd = std_dev (CalculateRobustStatisticsPowerLorentzian x_vals y_vals)
         in if isfinite raw \<and> \<not> raw < d1e_12 then raw
            else if isfinite sd \<and> d1e_12 < sd then sd
            else d1e_12)) \<and>
   (length x_vals \<noteq> length y_vals \<or> x_vals = [] \<longrightarrow>
      \<not> valid (CalculateRobustStatisticsPowerLorentzian x_vals y_vals))"
proof (intro conjI impI)
  assume ok: "length x_vals = length y_vals \<and> x_vals \<noteq> []"
  let ?s = "CalculateRobustStatisticsPowerLorentzian x_vals y_vals"
  show "valid ?s" using ok by (simp add: statistics_valid_iff)
  have m: "mad ?s = safeguard_mad (raw_mad y_vals (median ?s)) (std_dev ?s)"
    using ok by (simp add: statistics_mad)
  show "isfinite (mad ?s)" "d1e_12 \<le> mad ?s"
    using safeguard_mad_floor[of "raw_mad y_vals (median ?s)" "std_dev ?s"] m by simp_all
  show "mad ?s =
        (let raw = raw_mad y_vals (median ?s); sd = std_dev ?s
         in if isfinite raw \<and> \<not> raw < d1e_12 then raw
            else if isfinite sd \<and> d1e_12 < sd then sd
            else d1e_12)"
    unfolding m by (simp add: safeguard_mad_def Let_def)
next
  assume "length x_vals \<noteq> length y_vals \<or> x_vals = []"
  then show "\<not> valid (CalculateRobustStatisticsPowerLorentzian x_vals y_vals)"
    by (auto simp: statistics_valid_iff)
qed

text \<open>The theorem at a profile of five points and at a pair of unequal lengths.\<close>

theorem robust_statistics_mad_floor_witness:
  "valid (CalculateRobustStatisticsPowerLorentzian [Fin 0, Fin 1, Fin 2, Fin 3, Fin 4]
            [Fin 1, Fin 2, Fin 5, Fin 2, Fin 1]) \<and>
   d1e_12 \<le> mad (CalculateRobustStatisticsPowerLorentzian [Fin 0, Fin 1, Fin 2, Fin 3, Fin 4]
            [Fin 1, Fin 2, Fin 5, Fin 2, Fin 1]) \<and>
   \<not> valid (CalculateRobustStatisticsPowerLorentzian [Fin 0, Fin 1] [Fin 1])"
proof -
  let ?x = "[Fin 0, Fin 1, Fin 2, Fin 3, Fin 4]" and ?y = "[Fin 1, Fin 2, Fin 5, Fin 2, Fin 1]"
  have a: "length ?x = length ?y \<and> ?x \<noteq> []" by simp
  have b: "length [Fin 0, Fin 1] \<noteq> length [Fin 1] \<or> [Fin 0, Fin 1] = []" by simp
  from a robust_statistics_mad_floor[of ?x ?y]
  have "valid (CalculateRobustStatisticsPowerLorentzian ?x ?y) \<and>
        d1e_12 \<le> mad (CalculateRobustStatisticsPowerLorentzian ?x ?y)" by blast
  moreover from b robust_statistics_mad_floor[of "[Fin 0, Fin 1]" "[Fin 1]"]
  have "\<not> valid (CalculateRobustStatisticsPowerLorentzian [Fin 0, Fin 1] [Fin 1])" by blast
  ultimately show ?thesis by blast
qed

subsection \<open>The outlier filter of a profile\<close>

lemma threshold_pass_lengths:
  "length (fst (threshold_pass lower upper xs ys)) = length (snd (threshold_pass lower upper xs ys))"
  "length (fst (threshold_pass lower upper xs ys)) \<le> length xs"
  by (induction lower upper xs ys rule: threshold_pass.induct)
     (auto simp: Let_def split: prod.splits)

lemma lenient_retry_lengths:
  "length (fst (lenient_retry stats k xs ys)) = length (snd (lenient_retry stats k xs ys))"
  by (simp add: lenient_retry_def mad_pass_def Let_def threshold_pass_lengths)

lemma filter_unfold:
  "length x_vals = length y_vals \<Longrightarrow> 5 \<le> length x_vals \<Longrightarrow>
   FilterPowerLorentzianOutliers x_vals y_vals k =
     (let filtered = lenient_retry (CalculateRobustStatisticsPowerLorentzian x_vals y_vals) k
                       x_vals y_vals
      in if length (fst filtered) < 5 then (x_vals, y_vals) else filtered)"
  by (auto simp: FilterPowerLorentzianOutliers_def Let_def statistics_valid_iff)

text \<open>
  Claim C3. On a profile of at least five points the filter returns at least five points,
  as many positions as charges; when the threshold pass, with its lenient retry, leaves
  fewer than five points, the filter returns the original sequences.
\<close>

theorem filter_keeps_minimum:
  assumes "length x_vals = length y_vals" and "5 \<le> length x_vals"
  shows "5 \<le> length (fst (FilterPowerLorentzianOutliers x_vals y_vals k)) \<and>
         length (snd (FilterPowerLorentzianOutliers x_vals y_vals k)) =
           length (fst (FilterPowerLorentzianOutliers x_vals y_vals k)) \<and>
         (length (fst (lenient_retry (CalculateRobustStatisticsPowerLorentzian x_vals y_vals) k
                         x_vals y_vals)) < 5 \<longrightarrow>
            FilterPowerLorentzianOutliers x_vals y_vals k = (x_vals, y_vals))"
  using assms by (auto simp: filter_unfold Let_def lenient_retry_lengths)

text \<open>The theorem at a profile of five points.\<close>

theorem filter_keeps_minimum_witness:
  "5 \<le> length (fst (FilterPowerLorentzianOutliers [Fin 0, Fin 1, Fin 2, Fin 3, Fin 4]
                      [Fin 1, Fin 2, Fin 3, Fin 2, Fin 1] (Fin 2.5)))"
  using filter_keeps_minimum[of "[Fin 0, Fin 1, Fin 2, Fin 3, Fin 4]"
          "[Fin 1, Fin 2, Fin 3, Fin 2, Fin 1]" "Fin 2.5"]
  by simp

subsection \<open>Input errors of the one-dimensional fit\<close>

text \<open>
  Claim C8. With position and charge sequences of different lengths, or fewer than five
  points, the fit returns false and the outputs are what the caller passed in.
\<close>

theorem fit_rejects_short_input:
  "length x_vals \<noteq> length y_vals \<or> length x_vals < 5 \<Longrightarrow>
   FitPowerLorentzianCeres solve covariance K x_vals y_vals center_estimate pixel_spacing out
     enable_outlier_filtering = (False, out)"
  by (simp add: FitPowerLorentzianCeres_def)

text \<open>The theorem at a profile of three points.\<close>

theorem fit_rejects_short_input_witness:
  "FitPowerLorentzianCeres (instant_solve sample_parameters (finite_cost 0)) no_covariance
     sample_constants [Fin 0, Fin 1, Fin 2] [Fin 1, Fin 2, Fin 1] (Fin 1) (Fin 1) zero_outputs True =
   (False, zero_outputs)"
  using fit_rejects_short_input[of "[Fin 0, Fin 1, Fin 2]" "[Fin 1, Fin 2, Fin 1]"
          "instant_solve sample_parameters (finite_cost 0)" no_covariance sample_constants "Fin 1" "Fin 1"
          zero_outputs True]
  by simp

subsection \<open>The three tiers of the estimator\<close>

lemma estimate_valid:
  "length x_vals = length y_vals \<Longrightarrow> 5 \<le> length x_vals \<Longrightarrow>
   est_valid (EstimatePowerLorentzianParameters x_vals y_vals c ps)"
  by (auto simp: EstimatePowerLorentzianParameters_def Let_def method3_estimates_def
        statistics_valid_iff)

text \<open>
  Claim C1. On a profile of at least five points the estimate is valid and is the estimate
  of exactly one method: method 1 when its acceptance test holds, else method 2 when its
  test holds, else method 3; \<open>method_used\<close> is the number of that method.
\<close>

theorem estimator_tiers:
  assumes "length x_vals = length y_vals" and "5 \<le> length x_vals"
  shows
    "est_valid (EstimatePowerLorentzianParameters x_vals y_vals c ps) \<and>
     (method1_accepted
        (method1_estimates (CalculateRobustStatisticsPowerLorentzian x_vals y_vals) x_vals y_vals ps)
      \<longrightarrow> method_used (EstimatePowerLorentzianParameters x_vals y_vals c ps) = 1 \<and>
          EstimatePowerLorentzianParameters x_vals y_vals c ps =
            (method1_estimates (CalculateRobustStatisticsPowerLorentzian x_vals y_vals) x_vals y_vals ps)
              \<lparr>method_used := 1, est_valid := True\<rparr>) \<and>
     (\<not> method1_accepted
        (method1_estimates (CalculateRobustStatisticsPowerLorentzian x_vals y_vals) x_vals y_vals ps) \<and>
      method2_accepted (method2_estimates (CalculateRobustStatisticsPowerLorentzian x_vals y_vals) ps)
      \<longrightarrow> method_used (EstimatePowerLorentzianParameters x_vals y_vals c ps) = 2 \<and>
          EstimatePowerLorentzianParameters x_vals y_vals c ps =
            (method2_estimates (CalculateRobustStatisticsPowerLorentzian x_vals y_vals) ps)
              \<lparr>method_used := 2, est_valid := True\<rparr>) \<and>
     (\<not> method1_accepted
        (method1_estimates (CalculateRobustStatisticsPowerLorentzian x_vals y_vals) x_vals y_vals ps) \<and>
      \<not> method2_accepted (method2_estimates (CalculateRobustStatisticsPowerLorentzian x_vals y_vals) ps)
      \<longrightarrow> method_used (EstimatePowerLorentzianParameters x_vals y_vals c ps) = 3 \<and>
          EstimatePowerLorentzianParameters x_vals y_vals c ps =
            method3_estimates (CalculateRobustStatisticsPowerLorentzian x_vals y_vals) c ps)"
proof -
  have v: "valid (CalculateRobustStatisticsPowerLorentzian x_vals y_vals)"
    using assms by (auto simp: statistics_valid_iff)
  show ?thesis
    using assms v
    by (simp add: EstimatePowerLorentzianParameters_def Let_def method3_estimates_def)
qed

text \<open>
  Each method is reached: a peaked profile with pixel spacing 1 and with pixel spacing 0,
  and a flat profile.
\<close>

lemma tier1_case:
  "method1_accepted (method1_estimates
     (CalculateRobustStatisticsPowerLorentzian [Fin 0, Fin 1, Fin 2, Fin 3, Fin 4]
        [Fin 1, Fin 2, Fin 3, Fin 2, Fin 1])
     [Fin 0, Fin 1, Fin 2, Fin 3, Fin 4] [Fin 1, Fin 2, Fin 3, Fin 2, Fin 1] (Fin 1))"
  by (simp add: double_simps vector_simps statistics_simps estimator_simps)

lemma tier2_case:
  "\<not> method1_accepted (method1_estimates
     (CalculateRobustStatisticsPowerLorentzian [Fin 0, Fin 1, Fin 2, Fin 3, Fin 4]
        [Fin 1, Fin 2, Fin 3, Fin 2, Fin 1])
     [Fin 0, Fin 1, Fin 2, Fin 3, Fin 4] [Fin 1, Fin 2, Fin 3, Fin 2, Fin 1] (Fin 0)) \<and>
   method2_accepted (method2_estimates
     (CalculateRobustStatisticsPowerLorentzian [Fin 0, Fin 1, Fin 2, Fin 3, Fin 4]
        [Fin 1, Fin 2, Fin 3, Fin 2, Fin 1]) (Fin 0))"
  by (simp add: double_simps vector_simps statistics_simps estimator_simps)

lemma tier3_case:
  "\<not> method1_accepted (method1_estimates
     (CalculateRobustStatisticsPowerLorentzian [Fin 0, Fin 1, Fin 2, Fin 3, Fin 4]
        [Fin 1, Fin 1, Fin 1, Fin 1, Fin 1])
     [Fin 0, Fin 1, Fin 2, Fin 3, Fin 4] [Fin 1, Fin 1, Fin 1, Fin 1, Fin 1] (Fin 1)) \<and>
   \<not> method2_accepted (method2_estimates
     (CalculateRobustStatisticsPowerLorentzian [Fin 0, Fin 1, Fin 2, Fin 3, Fin 4]
        [Fin 1, Fin 1, Fin 1, Fin 1, Fin 1]) (Fin 1))"
  by (simp add: double_simps vector_simps statistics_simps estimator_simps)

theorem estimator_tiers_witness:
  "method_used (EstimatePowerLorentzianParameters [Fin 0, Fin 1, Fin 2, Fin 3, Fin 4]
                 [Fin 1, Fin 2, Fin 3, Fin 2, Fin 1] (Fin 2) (Fin 1)) = 1 \<and>
   method_used (EstimatePowerLorentzianParameters [Fin 0, Fin 1, Fin 2, Fin 3, Fin 4]
                 [Fin 1, Fin 2, Fin 3, Fin 2, Fin 1] (Fin 2) (Fin 0)) = 2 \<and>
   method_used (EstimatePowerLorentzianParameters [Fin 0, Fin 1, Fin 2, Fin 3, Fin 4]
                 [Fin 1, Fin 1, Fin 1, Fin 1, Fin 1] (Fin 2) (Fin 1)) = 3"
proof -
  let ?x = "[Fin 0, Fin 1, Fin 2, Fin 3, Fin 4]"
  let ?peak = "[Fin 1, Fin 2, Fin 3, Fin 2, Fin 1]" and ?flat = "[Fin 1, Fin 1, Fin 1, Fin 1, Fin 1]"
  have l: "length ?x = length ?peak" "length ?x = length ?flat" "5 \<le> length ?x" by simp_all
  from estimator_tiers[OF l(1) l(3), of "Fin 2" "Fin 1"] tier1_case
  have "method_used (EstimatePowerLorentzianParameters ?x ?peak (Fin 2) (Fin 1)) = 1" by blast
  moreover from estimator_tiers[OF l(1) l(3), of "Fin 2" "Fin 0"] tier2_case
  have "method_used (EstimatePowerLorentzianParameters ?x ?peak (Fin 2) (Fin 0)) = 2" by blast
  moreover from estimator_tiers[OF l(2) l(3), of "Fin 2" "Fin 1"] tier3_case
  have "method_used (EstimatePowerLorentzianParameters ?x ?flat (Fin 2) (Fin 1)) = 3" by blast
  ultimately show ?thesis by blast
qed

subsection \<open>Outlier removal on the point set\<close>

lemma keep_unflagged_filter:
  "keep_unflagged flags vs = map fst (filter (\<lambda>p. \<not> snd p) (zip vs flags))"
  by (induction flags vs rule: keep_unflagged.induct) auto

lemma count_flags_le: "length (filter (\<lambda>flag. flag) flags) \<le> length flags"
  by simp

lemma is_outlier_map:
  "is_outlier stats k cs = map (\<lambda>c. k * mad stats < \<bar>c - median stats\<bar>) cs"
  by (simp add: is_outlier_def Let_def)

lemma zip_keep_unflagged:
  "length xs = length cs \<Longrightarrow> length ys = length cs \<Longrightarrow>
   zip (keep_unflagged (map P cs) xs) (zip (keep_unflagged (map P cs) ys) (keep_unflagged (map P cs) cs)) =
   filter (\<lambda>(x, y, c). \<not> P c) (zip xs (zip ys cs))"
proof (induction cs arbitrary: xs ys)
  case Nil
  then show ?case by simp
next
  case (Cons c cs)
  then obtain x xs' y ys' where "xs = x # xs'" "ys = y # ys'"
    by (cases xs; cases ys) auto
  with Cons show ?case by simp
qed

text \<open>
  Claim C9. With at least five samples and removal enabled the statistics are valid, a
  sample is flagged exactly when the distance of its charge from the median exceeds
  \<open>k * MAD\<close>, and: when more than \<open>n - 5\<close> samples are flagged the result holds the
  original sequences, no outlier removed and \<open>filtering_applied\<close> false; otherwise it holds
  exactly the triples that are not flagged, the number of flagged samples and
  \<open>filtering_applied\<close> true.
\<close>

theorem remover_flags_and_floor:
  assumes "length x_coords = length y_coords" and "length x_coords = length charge_values"
    and "5 \<le> length charge_values"
  shows
    "valid (CalculateRobustStatisticsPowerLorentzian x_coords charge_values) \<and>
     is_outlier (CalculateRobustStatisticsPowerLorentzian x_coords charge_values) k charge_values =
       map (\<lambda>charge. k * mad (CalculateRobustStatisticsPowerLorentzian x_coords charge_values)
                       < \<bar>charge - median (CalculateRobustStatisticsPowerLorentzian x_coords charge_values)\<bar>)
           charge_values \<and>
     (let flags = is_outlier (CalculateRobustStatisticsPowerLorentzian x_coords charge_values) k
                    charge_values;
          flagged = length (filter (\<lambda>flag. flag) flags);
          result = RemovePowerLorentzianOutliers default_result x_coords y_coords charge_values True k
      in if length charge_values - 5 < flagged
         then filtered_x_coords result = x_coords \<and> filtered_y_coords result = y_coords \<and>
              filtered_charge_values result = charge_values \<and>
              outliers_removed result = 0 \<and> \<not> filtering_applied result
         else zip (filtered_x_coords result)
                  (zip (filtered_y_coords result) (filtered_charge_values result)) =
                filter (\<lambda>(x, y, charge).
                          \<not> k * mad (CalculateRobustStatisticsPowerLorentzian x_coords charge_values)
                            < \<bar>charge - median (CalculateRobustStatisticsPowerLorentzian x_coords charge_values)\<bar>)
                       (zip x_coords (zip y_coords charge_values)) \<and>
              length (filtered_x_coords result) = length charge_values - flagged \<and>
              length (filtered_y_coords result) = length charge_values - flagged \<and>
              length (filtered_charge_values result) = length charge_values - flagged \<and>
              outliers_removed result = int flagged \<and> filtering_applied result)"
proof -
  let ?st = "CalculateRobustStatisticsPowerLorentzian x_coords charge_values"
  let ?flags = "is_outlier ?st k charge_values"
  let ?n = "length (filter (\<lambda>flag. flag) ?flags)"
  have v: "valid ?st" using assms by (auto simp: statistics_valid_iff)
  have le: "?n \<le> length charge_values"
    using count_flags_le[of ?flags] by (simp add: is_outlier_map)
  have iff: "length charge_values - ?n < 5 \<longleftrightarrow> length charge_values - 5 < ?n"
    using le assms(3) by linarith
  have len: "\<And>vs. length vs = length charge_values \<Longrightarrow>
               length (keep_unflagged ?flags vs) = length charge_values - ?n"
  proof -
    fix vs :: "'b list" assume l: "length vs = length charge_values"
    have "length (filter (\<lambda>p. \<not> snd p) (zip vs ?flags)) + length (filter (\<lambda>p. snd p) (zip vs ?flags)) =
          length (zip vs ?flags)"
      using sum_length_filter_compl[of "\<lambda>p. snd p" "zip vs ?flags"] by simp
    moreover have "length (filter (\<lambda>p. snd p) (zip vs ?flags)) = ?n"
    proof -
      have "map snd (filter (\<lambda>p. snd p) (zip vs ?flags)) = filter (\<lambda>f. f) (map snd (zip vs ?flags))"
        by (simp add: filter_map comp_def)
      moreover have "map snd (zip vs ?flags) = ?flags" using l by (simp add: is_outlier_map)
      ultimately show ?thesis by (metis length_map)
    qed
    moreover have "length (zip vs ?flags) = length charge_values" using l by (simp add: is_outlier_map)
    ultimately show "length (keep_unflagged ?flags vs) = length charge_values - ?n"
      by (simp add: keep_unflagged_filter)
  qed
  show ?thesis
  proof (intro conjI)
    show "valid ?st" by (rule v)
    show "?flags = map (\<lambda>charge. k * mad ?st < \<bar>charge - median ?st\<bar>) charge_values"
      by (rule is_outlier_map)
    show "let flags = ?flags; flagged = length (filter (\<lambda>flag. flag) flags);
              result = RemovePowerLorentzianOutliers default_result x_coords y_coords charge_values True k
          in if length charge_values - 5 < flagged
             then filtered_x_coords result = x_coords \<and> filtered_y_coords result = y_coords \<and>
                  filtered_charge_values result = charge_values \<and>
                  outliers_removed result = 0 \<and> \<not> filtering_applied result
             else zip (filtered_x_coords result)
                      (zip (filtered_y_coords result) (filtered_charge_values result)) =
                    filter (\<lambda>(x, y, charge). \<not> k * mad ?st < \<bar>charge - median ?st\<bar>)
                           (zip x_coords (zip y_coords charge_values)) \<and>
                  length (filtered_x_coords result) = length charge_values - flagged \<and>
                  length (filtered_y_coords result) = length charge_values - flagged \<and>
                  length (filtered_charge_values result) = length charge_values - flagged \<and>
                  outliers_removed result = int flagged \<and> filtering_applied result"
    proof (cases "length charge_values - 5 < ?n")
      case True
      then show ?thesis
        using assms v iff
        by (simp add: RemovePowerLorentzianOutliers_def Let_def keep_original_def)
    next
      case False
      have z: "zip (keep_unflagged ?flags x_coords)
                 (zip (keep_unflagged ?flags y_coords) (keep_unflagged ?flags charge_values)) =
               filter (\<lambda>(x, y, charge). \<not> k * mad ?st < \<bar>charge - median ?st\<bar>)
                      (zip x_coords (zip y_coords charge_values))"
        unfolding is_outlier_map
        using zip_keep_unflagged[of x_coords charge_values y_coords
                "\<lambda>c. k * mad ?st < \<bar>c - median ?st\<bar>"] assms
        by simp
      show ?thesis
        using False assms v iff z len[of x_coords] len[of y_coords] len[of charge_values]
        by (simp add: RemovePowerLorentzianOutliers_def Let_def)
    qed
  qed
qed

text \<open>
  The theorem at six samples of which one, the charge 100, is flagged and removed.
\<close>

lemma remover_sample_statistics:
  "median (CalculateRobustStatisticsPowerLorentzian [Fin 0, Fin 1, Fin 2, Fin 3, Fin 4, Fin 5]
      [Fin 1, Fin 2, Fin 3, Fin 2, Fin 1, Fin 100]) = Fin 2"
  "mad (CalculateRobustStatisticsPowerLorentzian [Fin 0, Fin 1, Fin 2, Fin 3, Fin 4, Fin 5]
      [Fin 1, Fin 2, Fin 3, Fin 2, Fin 1, Fin 100]) = Fin 1.4826"
  by (simp_all add: double_simps vector_simps statistics_simps)

theorem remover_flags_and_floor_witness:
  "outliers_removed (RemovePowerLorentzianOutliers zero_removal_result
      [Fin 0, Fin 1, Fin 2, Fin 3, Fin 4, Fin 5] [Fin 0, Fin 0, Fin 0, Fin 0, Fin 0, Fin 0]
      [Fin 1, Fin 2, Fin 3, Fin 2, Fin 1, Fin 100] True (Fin 2.5)) = 1 \<and>
   filtering_applied (RemovePowerLorentzianOutliers zero_removal_result
      [Fin 0, Fin 1, Fin 2, Fin 3, Fin 4, Fin 5] [Fin 0, Fin 0, Fin 0, Fin 0, Fin 0, Fin 0]
      [Fin 1, Fin 2, Fin 3, Fin 2, Fin 1, Fin 100] True (Fin 2.5)) \<and>
   length (filtered_charge_values (RemovePowerLorentzianOutliers zero_removal_result
      [Fin 0, Fin 1, Fin 2, Fin 3, Fin 4, Fin 5] [Fin 0, Fin 0, Fin 0, Fin 0, Fin 0, Fin 0]
      [Fin 1, Fin 2, Fin 3, Fin 2, Fin 1, Fin 100] True (Fin 2.5))) = 5"
  using remover_flags_and_floor[of "[Fin 0, Fin 1, Fin 2, Fin 3, Fin 4, Fin 5]"
          "[Fin 0, Fin 0, Fin 0, Fin 0, Fin 0, Fin 0]"
          "[Fin 1, Fin 2, Fin 3, Fin 2, Fin 1, Fin 100]" "Fin 2.5" zero_removal_result]
  by (simp add: is_outlier_map remover_sample_statistics double_simps Let_def)

subsection \<open>The loss settings of the solver configurations\<close>

lemma solver_options_ignore_loss:
  "solver_options (config\<lparr>loss_function := l, loss_parameter := s\<rparr>) = solver_options config"
  by (simp add: solver_options_def)

lemma run_config_ignores_loss:
  "run_config solve K ps est cx cy u (config\<lparr>loss_function := l, loss_parameter := s\<rparr>) =
   run_config solve K ps est cx cy u config"
  by (simp add: run_config_def solver_options_ignore_loss)

lemma foldl_residual_blocks_loss:
  "map block_loss (residual_blocks
      (foldl (\<lambda>pr (x, y). AddResidualBlock (x, y, u) None pr) problem points)) =
   map block_loss (residual_blocks problem) @ replicate (length points) None"
proof (induction points arbitrary: problem)
  case Nil
  then show ?case by simp
next
  case (Cons p points)
  show ?case
    by (cases p) (simp add: Cons.IH, simp add: AddResidualBlock_def)
qed

lemma bounds_keep_blocks [simp]:
  "residual_blocks (SetParameterLowerBound i v problem) = residual_blocks problem"
  "residual_blocks (SetParameterUpperBound i v problem) = residual_blocks problem"
  by (simp_all add: SetParameterLowerBound_def SetParameterUpperBound_def)

lemma build_problem_blocks_loss:
  "map block_loss (residual_blocks (build_problem K est cx cy u ps)) =
   replicate (min (length cx) (length cy)) None"
  by (simp add: build_problem_def Let_def add_residual_blocks_def foldl_residual_blocks_loss
                empty_problem_def)

lemma two_stage_solve_blocks:
  "residual_blocks (fst (two_stage_solve solve options problem parameters ps)) =
   residual_blocks problem"
  by (simp add: two_stage_solve_def Let_def split: prod.splits)

lemma try_configs_ignore_loss:
  "try_configs solve K ps est cx cy u
     (map (\<lambda>c. c\<lparr>loss_function := kind c, loss_parameter := scale c\<rparr>) cfgs) =
   try_configs solve K ps est cx cy u cfgs"
  by (induction cfgs) (simp_all add: run_config_ignores_loss split: prod.splits)

text \<open>
  Claim C10. What one configuration solves does not depend on its loss kind and loss scale:
  changing the two fields changes neither the problem, nor the parameters, nor the summary;
  every residual block of the problem carries a null loss function; and the search over the
  five configurations finds the same fit whatever their loss fields hold.
\<close>

theorem loss_configuration_has_no_effect:
  "run_config solve K ps est cx cy u (config\<lparr>loss_function := l, loss_parameter := s\<rparr>) =
     run_config solve K ps est cx cy u config \<and>
   map block_loss (residual_blocks (fst (run_config solve K ps est cx cy u config))) =
     replicate (min (length cx) (length cy)) None \<and>
   try_configs solve K ps est cx cy u
     (map (\<lambda>c. c\<lparr>loss_function := kind c, loss_parameter := scale c\<rparr>) (configs est)) =
     try_configs solve K ps est cx cy u (configs est)"
proof (intro conjI)
  show "run_config solve K ps est cx cy u (config\<lparr>loss_function := l, loss_parameter := s\<rparr>) =
        run_config solve K ps est cx cy u config"
    by (rule run_config_ignores_loss)
  show "map block_loss (residual_blocks (fst (run_config solve K ps est cx cy u config))) =
        replicate (min (length cx) (length cy)) None"
    by (simp add: run_config_def two_stage_solve_blocks build_problem_blocks_loss)
  show "try_configs solve K ps est cx cy u
          (map (\<lambda>c. c\<lparr>loss_function := kind c, loss_parameter := scale c\<rparr>) (configs est)) =
        try_configs solve K ps est cx cy u (configs est)"
    by (rule try_configs_ignore_loss)
qed


text \<open>The theorem at the first configuration of a profile of five points.\<close>

theorem loss_configuration_has_no_effect_witness:
  "run_config (instant_solve sample_parameters (finite_cost 0)) sample_constants (Fin 1)
     (EstimatePowerLorentzianParameters [Fin 0, Fin 1, Fin 2, Fin 3, Fin 4]
        [Fin 1, Fin 2, Fin 3, Fin 2, Fin 1] (Fin 2) (Fin 1))
     [Fin 0, Fin 1, Fin 2, Fin 3, Fin 4] [Fin 1, Fin 2, Fin 3, Fin 2, Fin 1] (Fin 1)
     (hd (configs (EstimatePowerLorentzianParameters [Fin 0, Fin 1, Fin 2, Fin 3, Fin 4]
                     [Fin 1, Fin 2, Fin 3, Fin 2, Fin 1] (Fin 2) (Fin 1)))
        \<lparr>loss_function := ''NONE'', loss_parameter := Fin 0\<rparr>) =
   run_config (instant_solve sample_parameters (finite_cost 0)) sample_constants (Fin 1)
     (EstimatePowerLorentzianParameters [Fin 0, Fin 1, Fin 2, Fin 3, Fin 4]
        [Fin 1, Fin 2, Fin 3, Fin 2, Fin 1] (Fin 2) (Fin 1))
     [Fin 0, Fin 1, Fin 2, Fin 3, Fin 4] [Fin 1, Fin 2, Fin 3, Fin 2, Fin 1] (Fin 1)
     (hd (configs (EstimatePowerLorentzianParameters [Fin 0, Fin 1, Fin 2, Fin 3, Fin 4]
                     [Fin 1, Fin 2, Fin 3, Fin 2, Fin 1] (Fin 2) (Fin 1))))"
  using loss_configuration_has_no_effect[where solve = "instant_solve sample_parameters (finite_cost 0)"
          and K = sample_constants and ps = "Fin 1"
          and est = "EstimatePowerLorentzianParameters [Fin 0, Fin 1, Fin 2, Fin 3, Fin 4]
                       [Fin 1, Fin 2, Fin 3, Fin 2, Fin 1] (Fin 2) (Fin 1)"
          and cx = "[Fin 0, Fin 1, Fin 2, Fin 3, Fin 4]"
          and cy = "[Fin 1, Fin 2, Fin 3, Fin 2, Fin 1]" and u = "Fin 1"
          and config = "hd (configs (EstimatePowerLorentzianParameters
                                       [Fin 0, Fin 1, Fin 2, Fin 3, Fin 4]
                                       [Fin 1, Fin 2, Fin 3, Fin 2, Fin 1] (Fin 2) (Fin 1)))"
          and l = "''NONE''" and s = "Fin 0"]
  by blast

subsection \<open>The aggregate success flags\<close>

lemma fit_x_direction_success:
  "fst (fit_x_direction solve covariance K row c ps en result) =
     (case row of None \<Rightarrow> False
      | Some row_data \<Rightarrow>
          fst (FitPowerLorentzianCeres solve covariance K (map fst row_data) (map snd row_data) c ps
                 (x_fit result) en))"
  by (simp add: fit_x_direction_def Let_def split: option.splits prod.splits)

lemma fit_y_direction_success:
  "fst (fit_y_direction solve covariance K col c ps en result) =
     (case col of None \<Rightarrow> False
      | Some col_data \<Rightarrow>
          fst (FitPowerLorentzianCeres solve covariance K (map fst col_data) (map snd col_data) c ps
                 (y_fit result) en))"
  by (simp add: fit_y_direction_def Let_def split: option.splits prod.splits)

lemma fit_x_direction_keeps_y:
  "y_fit (snd (fit_x_direction solve covariance K row c ps en result)) = y_fit result"
  by (simp add: fit_x_direction_def Let_def split: option.splits prod.splits)

lemma store_charge_uncertainties_flag [simp]:
  "fit_successful (store_charge_uncertainties K xs row ys col result) = fit_successful result"
  by (simp add: store_charge_uncertainties_def Let_def split: option.splits)

lemma fit2d_success:
  "fit_successful (Fit2DPowerLorentzianCeres solve covariance K default_result x_coords y_coords
      charge_values cx cy ps en) =
   (if length x_coords \<noteq> length y_coords \<or> length x_coords \<noteq> length charge_values \<or>
       length x_coords < 5
    then fit_successful default_result
    else fst (fit_x_direction solve covariance K (selected_row x_coords y_coords charge_values cy ps)
                cx ps en default_result) \<and>
         fst (fit_y_direction solve covariance K (selected_col x_coords y_coords charge_values cx ps)
                cy ps en default_result))"
proof (cases "length x_coords \<noteq> length y_coords \<or> length x_coords \<noteq> length charge_values \<or>
       length x_coords < 5")
  case True
  then show ?thesis by (auto simp: Fit2DPowerLorentzianCeres_def Let_def)
next
  case False
  obtain rows_data cols_data where
    g: "group_points (ps * Fin 0.1) x_coords y_coords charge_values = (rows_data, cols_data)"
    by (cases "group_points (ps * Fin 0.1) x_coords y_coords charge_values")
  let ?row = "line_to_fit (best_line cy rows_data) rows_data"
  let ?col = "line_to_fit (best_line cx cols_data) cols_data"
  obtain xs r1 where x: "fit_x_direction solve covariance K ?row cx ps en default_result = (xs, r1)"
    by (cases "fit_x_direction solve covariance K ?row cx ps en default_result")
  obtain ys r2 where y: "fit_y_direction solve covariance K ?col cy ps en r1 = (ys, r2)"
    by (cases "fit_y_direction solve covariance K ?col cy ps en r1")
  have r1: "y_fit r1 = y_fit default_result"
    using fit_x_direction_keeps_y[of solve covariance K ?row cx ps en default_result] x by simp
  have ys: "ys = fst (fit_y_direction solve covariance K ?col cy ps en default_result)"
    using y fit_y_direction_success[of solve covariance K ?col cy ps en r1]
      fit_y_direction_success[of solve covariance K ?col cy ps en default_result] r1
    by (simp split: option.splits)
  have "fit_successful (Fit2DPowerLorentzianCeres solve covariance K default_result x_coords y_coords
      charge_values cx cy ps en) = (xs \<and> ys)"
    using False g x y by (simp add: Fit2DPowerLorentzianCeres_def Let_def)
  then show ?thesis
    using False g x ys by (simp add: selected_row_def selected_col_def Let_def)
qed

lemma fit_success_independent_of_outputs:
  "fst (FitPowerLorentzianCeres solve covariance K x y c ps out en) =
   fst (FitPowerLorentzianCeres solve covariance K x y c ps out' en)"
  by (simp add: FitPowerLorentzianCeres_def split: option.splits)

lemma diagonal_sub_fit_success:
  "sub_fit_succeeds (diagonal_sub_fit solve covariance K d dps en out) =
   sub_fit_succeeds (diagonal_sub_fit solve covariance K d dps en out')"
proof -
  let ?x = "map fst (sort_by pair_less d)" and ?y = "map snd (sort_by pair_less d)"
  obtain a b where 1: "FitPowerLorentzianCeres solve covariance K ?x ?y (Fin 0) dps out en = (a, b)"
    by (cases "FitPowerLorentzianCeres solve covariance K ?x ?y (Fin 0) dps out en")
  obtain a' b' where 2: "FitPowerLorentzianCeres solve covariance K ?x ?y (Fin 0) dps out' en = (a', b')"
    by (cases "FitPowerLorentzianCeres solve covariance K ?x ?y (Fin 0) dps out' en")
  have "a = a'"
    using fit_success_independent_of_outputs[of solve covariance K ?x ?y "Fin 0" dps out en out'] 1 2
    by simp
  then show ?thesis
    using 1 2 by (simp add: diagonal_sub_fit_def sub_fit_succeeds_def Let_def)
qed

lemma fit_diagonal_success:
  assumes "\<not> main_diag_x_fit_successful d" "\<not> main_diag_y_fit_successful d"
    "\<not> sec_diag_x_fit_successful d" "\<not> sec_diag_y_fit_successful d" "\<not> diag_fit_successful d"
  shows "diag_fit_successful (FitDiagonalPowerLorentzianCeres solve covariance K d r0 x_coords y_coords
      charge_values cx cy ps en) =
   (length x_coords = length y_coords \<and> length x_coords = length charge_values \<and>
    5 \<le> length x_coords \<and>
    sub_fit_succeeds (diagonal_sub_fit solve covariance K
       (fst (diagonal_lines r0 x_coords y_coords charge_values cx cy ps en))
       (ps * Fin 1.41421356237) en (main_diag_x_fit d)) \<and>
    sub_fit_succeeds (diagonal_sub_fit solve covariance K
       (fst (diagonal_lines r0 x_coords y_coords charge_values cx cy ps en))
       (ps * Fin 1.41421356237) en (main_diag_y_fit d)) \<and>
    sub_fit_succeeds (diagonal_sub_fit solve covariance K
       (snd (diagonal_lines r0 x_coords y_coords charge_values cx cy ps en))
       (ps * Fin 1.41421356237) en (sec_diag_x_fit d)) \<and>
    sub_fit_succeeds (diagonal_sub_fit solve covariance K
       (snd (diagonal_lines r0 x_coords y_coords charge_values cx cy ps en))
       (ps * Fin 1.41421356237) en (sec_diag_y_fit d)))"
  using assms
  by (auto simp: FitDiagonalPowerLorentzianCeres_def Let_def diagonal_lines_def sub_fit_succeeds_def
           split: prod.splits option.splits)

text \<open>
  Claim C7. The aggregate flag is the conjunction of the component fits. Given that a
  default-constructed result reports no success, the flag of the two-dimensional
  coordinator is true exactly when the input passes the size checks and both the fit of the
  selected row and the fit of the selected column return true (\<open>fit_x_direction\<close> and
  \<open>fit_y_direction\<close> yield \<open>x_fit_success\<close> and \<open>y_fit_success\<close>, false when no line of
  five points is selected); the flag of the diagonal coordinator is true exactly when the
  input passes the size checks and each of the four sub-fits ran and returned true.
\<close>

theorem aggregate_success_is_conjunction:
  assumes "\<not> fit_successful default_result"
    and "\<not> diag_fit_successful default_diagonal"
    and "\<not> main_diag_x_fit_successful default_diagonal"
    and "\<not> main_diag_y_fit_successful default_diagonal"
    and "\<not> sec_diag_x_fit_successful default_diagonal"
    and "\<not> sec_diag_y_fit_successful default_diagonal"
  shows
    "(fit_successful (Fit2DPowerLorentzianCeres solve covariance K default_result x_coords y_coords
        charge_values cx cy ps en) \<longleftrightarrow>
      length x_coords = length y_coords \<and> length x_coords = length charge_values \<and>
      5 \<le> length x_coords \<and>
      fst (fit_x_direction solve covariance K
             (selected_row x_coords y_coords charge_values cy ps) cx ps en default_result) \<and>
      fst (fit_y_direction solve covariance K
             (selected_col x_coords y_coords charge_values cx ps) cy ps en default_result)) \<and>
     (diag_fit_successful (FitDiagonalPowerLorentzianCeres solve covariance K default_diagonal
        default_removal x_coords y_coords charge_values cx cy ps en) \<longleftrightarrow>
      length x_coords = length y_coords \<and> length x_coords = length charge_values \<and>
      5 \<le> length x_coords \<and>
      sub_fit_succeeds (diagonal_sub_fit solve covariance K
        (fst (diagonal_lines default_removal x_coords y_coords charge_values cx cy ps en))
        (ps * Fin 1.41421356237) en (main_diag_x_fit default_diagonal)) \<and>
      sub_fit_succeeds (diagonal_sub_fit solve covariance K
        (fst (diagonal_lines default_removal x_coords y_coords charge_values cx cy ps en))
        (ps * Fin 1.41421356237) en (main_diag_y_fit default_diagonal)) \<and>
      sub_fit_succeeds (diagonal_sub_fit solve covariance K
        (snd (diagonal_lines default_removal x_coords y_coords charge_values cx cy ps en))
        (ps * Fin 1.41421356237) en (sec_diag_x_fit default_diagonal)) \<and>
      sub_fit_succeeds (diagonal_sub_fit solve covariance K
        (snd (diagonal_lines default_removal x_coords y_coords charge_values cx cy ps en))
        (ps * Fin 1.41421356237) en (sec_diag_y_fit default_diagonal)))"
proof (intro conjI)
  show "fit_successful (Fit2DPowerLorentzianCeres solve covariance K default_result x_coords y_coords
        charge_values cx cy ps en) \<longleftrightarrow>
      length x_coords = length y_coords \<and> length x_coords = length charge_values \<and>
      5 \<le> length x_coords \<and>
      fst (fit_x_direction solve covariance K
             (selected_row x_coords y_coords charge_values cy ps) cx ps en default_result) \<and>
      fst (fit_y_direction solve covariance K
             (selected_col x_coords y_coords charge_values cx ps) cy ps en default_result)"
    using assms(1) by (auto simp: fit2d_success)
  show "diag_fit_successful (FitDiagonalPowerLorentzianCeres solve covariance K default_diagonal
        default_removal x_coords y_coords charge_values cx cy ps en) \<longleftrightarrow>
      length x_coords = length y_coords \<and> length x_coords = length charge_values \<and>
      5 \<le> length x_coords \<and>
      sub_fit_succeeds (diagonal_sub_fit solve covariance K
        (fst (diagonal_lines default_removal x_coords y_coords charge_values cx cy ps en))
        (ps * Fin 1.41421356237) en (main_diag_x_fit default_diagonal)) \<and>
      sub_fit_succeeds (diagonal_sub_fit solve covariance K
        (fst (diagonal_lines default_removal x_coords y_coords charge_values cx cy ps en))
        (ps * Fin 1.41421356237) en (main_diag_y_fit default_diagonal)) \<and>
      sub_fit_succeeds (diagonal_sub_fit solve covariance K
        (snd (diagonal_lines default_removal x_coords y_coords charge_values cx cy ps en))
        (ps * Fin 1.41421356237) en (sec_diag_x_fit default_diagonal)) \<and>
      sub_fit_succeeds (diagonal_sub_fit solve covariance K
        (snd (diagonal_lines default_removal x_coords y_coords charge_values cx cy ps en))
        (ps * Fin 1.41421356237) en (sec_diag_y_fit default_diagonal))"
    using fit_diagonal_success[OF assms(3) assms(4) assms(5) assms(6) assms(2)] by simp
qed

text \<open>
  The sample solver makes every fit of at least five points succeed, so that the cross gives
  aggregate success, the row alone gives a successful row fit without aggregate success,
  and the diagonals of the cross, of one point each, give no success.
\<close>

lemma instant_solve_accepted:
  assumes "length x = length y" and "5 \<le> length x"
    and "fit_accepted fitted \<lparr>termination_type = CONVERGENCE, final_cost = cost\<rparr>"
  shows "\<exists>problem. try_datasets (instant_solve fitted cost) K c ps ((x, y) # rest) =
           Some \<lparr>clean_x = x, clean_y = y, fitted_problem = problem, fitted_parameters = fitted,
                 fitted_summary = \<lparr>termination_type = CONVERGENCE, final_cost = cost\<rparr>\<rparr>"
proof -
  have v: "est_valid (EstimatePowerLorentzianParameters x y c ps)"
    using assms(1,2) by (rule estimate_valid)
  have n: "\<not> length x < 5" using assms(2) by simp
  show ?thesis
    using v n assms(3)
    by (simp add: Let_def configs_def run_config_def two_stage_solve_def instant_solve_def
             split: prod.splits)
qed

lemma sample_fit_accepted:
  "fit_accepted sample_parameters \<lparr>termination_type = CONVERGENCE, final_cost = cost\<rparr>"
  by (simp add: fit_accepted_def sample_parameters_def converged_def)

lemma instant_fit_succeeds:
  assumes "length x = length y" and "5 \<le> length x"
  shows "fst (FitPowerLorentzianCeres (instant_solve sample_parameters cost) covariance K x y c ps
                out False)"
proof -
  obtain problem where
    "try_datasets (instant_solve sample_parameters cost) K c ps ((x, y) # []) =
       Some \<lparr>clean_x = x, clean_y = y, fitted_problem = problem,
             fitted_parameters = sample_parameters,
             fitted_summary = \<lparr>termination_type = CONVERGENCE, final_cost = cost\<rparr>\<rparr>"
    using instant_solve_accepted[OF assms sample_fit_accepted] by blast
  then show ?thesis
    using assms by (simp add: FitPowerLorentzianCeres_def filtered_datasets_def)
qed

lemma cross_row:
  "selected_row cross_x cross_y cross_charge (Fin 0) (Fin 1) =
     Some [(Fin (-2), Fin 1), (Fin (-1), Fin 2), (Fin 0, Fin 3), (Fin 1, Fin 2), (Fin 2, Fin 1)]"
  by (simp add: grouping_simps double_simps)

lemma cross_col:
  "selected_col cross_x cross_y cross_charge (Fin 0) (Fin 1) =
     Some [(Fin (-2), Fin 1), (Fin (-1), Fin 2), (Fin 0, Fin 3), (Fin 1, Fin 2), (Fin 2, Fin 1)]"
  by (simp add: grouping_simps double_simps)

lemma cross_diagonals:
  "diagonal_lines zero_removal_result cross_x cross_y cross_charge (Fin 0) (Fin 0) (Fin 1) False =
     ([(Fin 0, Fin 3)], [(Fin 0, Fin 3)])"
  by (simp add: diagonal_lines_def diagonal_input_def diagonal_data_def double_simps Let_def)

lemma single_row:
  "selected_row row_x row_y row_charge (Fin 0) (Fin 1) =
     Some [(Fin (-2), Fin 1), (Fin (-1), Fin 2), (Fin 0, Fin 3), (Fin 1, Fin 2), (Fin 2, Fin 1)]"
  "selected_col row_x row_y row_charge (Fin 0) (Fin 1) = None"
  by (simp_all add: grouping_simps double_simps)

theorem aggregate_success_is_conjunction_witness:
  "fit_successful (Fit2DPowerLorentzianCeres (instant_solve sample_parameters (finite_cost 0)) no_covariance
     sample_constants zero_2d_result cross_x cross_y cross_charge (Fin 0) (Fin 0) (Fin 1) False) \<and>
   \<not> fit_successful (Fit2DPowerLorentzianCeres (instant_solve sample_parameters (finite_cost 0))
     no_covariance sample_constants zero_2d_result row_x row_y row_charge (Fin 0) (Fin 0) (Fin 1)
     False) \<and>
   fst (fit_x_direction (instant_solve sample_parameters (finite_cost 0)) no_covariance sample_constants
          (selected_row row_x row_y row_charge (Fin 0) (Fin 1)) (Fin 0) (Fin 1) False
          zero_2d_result) \<and>
   \<not> diag_fit_successful (FitDiagonalPowerLorentzianCeres (instant_solve sample_parameters (finite_cost 0))
     no_covariance sample_constants zero_diagonal_result zero_removal_result
     cross_x cross_y cross_charge (Fin 0) (Fin 0) (Fin 1) False)"
proof -
  let ?solve = "instant_solve sample_parameters (finite_cost 0)"
  let ?line = "[(Fin (-2), Fin 1), (Fin (-1), Fin 2), (Fin 0, Fin 3), (Fin 1, Fin 2), (Fin 2, Fin 1)]"
  have z: "\<not> fit_successful zero_2d_result" "\<not> diag_fit_successful zero_diagonal_result"
    "\<not> main_diag_x_fit_successful zero_diagonal_result"
    "\<not> main_diag_y_fit_successful zero_diagonal_result"
    "\<not> sec_diag_x_fit_successful zero_diagonal_result"
    "\<not> sec_diag_y_fit_successful zero_diagonal_result"
    by (simp_all add: zero_2d_result_def zero_diagonal_result_def)
  have fit: "\<And>c out. fst (FitPowerLorentzianCeres ?solve no_covariance sample_constants
                (map fst ?line) (map snd ?line) c (Fin 1) out False)"
    by (rule instant_fit_succeeds) simp_all
  have x: "\<And>row. row = Some ?line \<Longrightarrow>
             fst (fit_x_direction ?solve no_covariance sample_constants row (Fin 0) (Fin 1) False
                    zero_2d_result)"
    using fit by (simp add: fit_x_direction_success)
  have y: "\<And>col. col = Some ?line \<Longrightarrow>
             fst (fit_y_direction ?solve no_covariance sample_constants col (Fin 0) (Fin 1) False
                    zero_2d_result)"
    using fit by (simp add: fit_y_direction_success)
  have ny: "\<not> fst (fit_y_direction ?solve no_covariance sample_constants
                  (selected_col row_x row_y row_charge (Fin 0) (Fin 1)) (Fin 0) (Fin 1) False
                  zero_2d_result)"
    by (simp add: single_row fit_y_direction_success)
  have nd: "\<not> sub_fit_succeeds (diagonal_sub_fit ?solve no_covariance sample_constants
                 (fst (diagonal_lines zero_removal_result cross_x cross_y cross_charge (Fin 0) (Fin 0)
                         (Fin 1) False))
                 (Fin 1 * Fin 1.41421356237) False (main_diag_x_fit zero_diagonal_result))"
    by (simp add: cross_diagonals diagonal_sub_fit_def sub_fit_succeeds_def)
  note cross = aggregate_success_is_conjunction[OF z, of ?solve no_covariance sample_constants
      cross_x cross_y cross_charge "Fin 0" "Fin 0" "Fin 1" False zero_removal_result]
  note row = aggregate_success_is_conjunction[OF z, of ?solve no_covariance sample_constants
      row_x row_y row_charge "Fin 0" "Fin 0" "Fin 1" False zero_removal_result]
  have "fit_successful (Fit2DPowerLorentzianCeres ?solve no_covariance sample_constants
          zero_2d_result cross_x cross_y cross_charge (Fin 0) (Fin 0) (Fin 1) False)"
    using cross x[OF cross_row] y[OF cross_col] by simp
  moreover have "\<not> fit_successful (Fit2DPowerLorentzianCeres ?solve no_covariance sample_constants
          zero_2d_result row_x row_y row_charge (Fin 0) (Fin 0) (Fin 1) False)"
    using row ny by blast
  moreover have "fst (fit_x_direction ?solve no_covariance sample_constants
          (selected_row row_x row_y row_charge (Fin 0) (Fin 1)) (Fin 0) (Fin 1) False zero_2d_result)"
    using x[OF single_row(1)] .
  moreover have "\<not> diag_fit_successful (FitDiagonalPowerLorentzianCeres ?solve no_covariance
          sample_constants zero_diagonal_result zero_removal_result
          cross_x cross_y cross_charge (Fin 0) (Fin 0) (Fin 1) False)"
    using cross nd by blast
  ultimately show ?thesis by blast
qed

subsection \<open>Repeated filtering\<close>

text \<open>
  Claim C5, as stated, fails: the filter computes median and MAD anew from the profile it is
  given, and the statistics of its output can be narrower than those of its input. Of a
  profile of eleven points the filter with threshold 2.5 keeps seven, and of these seven it
  keeps five.
\<close>

lemma eleven_median:
  "median (CalculateRobustStatisticsPowerLorentzian
     [Fin 0, Fin 1, Fin 2, Fin 3, Fin 4, Fin 5, Fin 6, Fin 7, Fin 8, Fin 9, Fin 10]
     [Fin 0, Fin 1, Fin (-1), Fin 1, Fin (-1), Fin 5, Fin (-5), Fin 100, Fin (-100), Fin 100,
      Fin (-100)]) = Fin 0"
  by (simp add: statistics_median median_of_sorted_def vector_simps)

lemma eleven_mad:
  "mad (CalculateRobustStatisticsPowerLorentzian
     [Fin 0, Fin 1, Fin 2, Fin 3, Fin 4, Fin 5, Fin 6, Fin 7, Fin 8, Fin 9, Fin 10]
     [Fin 0, Fin 1, Fin (-1), Fin 1, Fin (-1), Fin 5, Fin (-5), Fin 100, Fin (-100), Fin 100,
      Fin (-100)]) = Fin 7.413"
  unfolding statistics_mad[of "[Fin 0, Fin 1, Fin 2, Fin 3, Fin 4, Fin 5, Fin 6, Fin 7, Fin 8,
      Fin 9, Fin 10]" "[Fin 0, Fin 1, Fin (-1), Fin 1, Fin (-1), Fin 5, Fin (-5), Fin 100,
      Fin (-100), Fin 100, Fin (-100)]", simplified] eleven_median
  by (simp add: raw_mad_def safeguard_mad_def double_simps vector_simps)

lemma seven_median:
  "median (CalculateRobustStatisticsPowerLorentzian
     [Fin 0, Fin 1, Fin 2, Fin 3, Fin 4, Fin 5, Fin 6]
     [Fin 0, Fin 1, Fin (-1), Fin 1, Fin (-1), Fin 5, Fin (-5)]) = Fin 0"
  by (simp add: statistics_median median_of_sorted_def vector_simps)

lemma seven_mad:
  "mad (CalculateRobustStatisticsPowerLorentzian
     [Fin 0, Fin 1, Fin 2, Fin 3, Fin 4, Fin 5, Fin 6]
     [Fin 0, Fin 1, Fin (-1), Fin 1, Fin (-1), Fin 5, Fin (-5)]) = Fin 1.4826"
  unfolding statistics_mad[of "[Fin 0, Fin 1, Fin 2, Fin 3, Fin 4, Fin 5, Fin 6]"
      "[Fin 0, Fin 1, Fin (-1), Fin 1, Fin (-1), Fin 5, Fin (-5)]", simplified] seven_median
  by (simp add: raw_mad_def safeguard_mad_def double_simps vector_simps)

theorem filter_idempotent_counterexample:
  "FilterPowerLorentzianOutliers
     [Fin 0, Fin 1, Fin 2, Fin 3, Fin 4, Fin 5, Fin 6, Fin 7, Fin 8, Fin 9, Fin 10]
     [Fin 0, Fin 1, Fin (-1), Fin 1, Fin (-1), Fin 5, Fin (-5), Fin 100, Fin (-100), Fin 100,
      Fin (-100)] (Fin 2.5) =
     ([Fin 0, Fin 1, Fin 2, Fin 3, Fin 4, Fin 5, Fin 6],
      [Fin 0, Fin 1, Fin (-1), Fin 1, Fin (-1), Fin 5, Fin (-5)]) \<and>
   FilterPowerLorentzianOutliers
     [Fin 0, Fin 1, Fin 2, Fin 3, Fin 4, Fin 5, Fin 6]
     [Fin 0, Fin 1, Fin (-1), Fin 1, Fin (-1), Fin 5, Fin (-5)] (Fin 2.5) =
     ([Fin 0, Fin 1, Fin 2, Fin 3, Fin 4], [Fin 0, Fin 1, Fin (-1), Fin 1, Fin (-1)])"
  by (simp add: filter_unfold lenient_retry_def mad_pass_def eleven_median eleven_mad
        seven_median seven_mad double_simps)

lemma threshold_pass_idempotent:
  "threshold_pass lower upper (fst (threshold_pass lower upper xs ys))
     (snd (threshold_pass lower upper xs ys)) = threshold_pass lower upper xs ys"
  by (induction lower upper xs ys rule: threshold_pass.induct)
     (auto simp: Let_def split: prod.splits)

text \<open>
  Claim C5, amended. For fixed statistics and a fixed threshold \<open>k\<close> the threshold pass is
  idempotent: applied to its own output, with the same median, MAD and \<open>k\<close>, it removes no
  further point.
\<close>

theorem threshold_pass_fixed_point:
  "mad_pass stats k (fst (mad_pass stats k x_vals y_vals)) (snd (mad_pass stats k x_vals y_vals)) =
     mad_pass stats k x_vals y_vals"
  by (simp add: mad_pass_def threshold_pass_idempotent)

text \<open>The theorem at the statistics of the profile of eleven points.\<close>

theorem threshold_pass_fixed_point_witness:
  "mad_pass
     (CalculateRobustStatisticsPowerLorentzian
        [Fin 0, Fin 1, Fin 2, Fin 3, Fin 4, Fin 5, Fin 6, Fin 7, Fin 8, Fin 9, Fin 10]
        [Fin 0, Fin 1, Fin (-1), Fin 1, Fin (-1), Fin 5, Fin (-5), Fin 100, Fin (-100), Fin 100,
         Fin (-100)]) (Fin 2.5)
     [Fin 0, Fin 1, Fin 2, Fin 3, Fin 4, Fin 5, Fin 6]
     [Fin 0, Fin 1, Fin (-1), Fin 1, Fin (-1), Fin 5, Fin (-5)] =
   ([Fin 0, Fin 1, Fin 2, Fin 3, Fin 4, Fin 5, Fin 6],
    [Fin 0, Fin 1, Fin (-1), Fin 1, Fin (-1), Fin 5, Fin (-5)])"
proof -
  let ?x = "[Fin 0, Fin 1, Fin 2, Fin 3, Fin 4, Fin 5, Fin 6, Fin 7, Fin 8, Fin 9, Fin 10]"
  let ?y = "[Fin 0, Fin 1, Fin (-1), Fin 1, Fin (-1), Fin 5, Fin (-5), Fin 100, Fin (-100),
             Fin 100, Fin (-100)]"
  let ?st = "CalculateRobustStatisticsPowerLorentzian ?x ?y"
  have p: "mad_pass ?st (Fin 2.5) ?x ?y =
           ([Fin 0, Fin 1, Fin 2, Fin 3, Fin 4, Fin 5, Fin 6],
            [Fin 0, Fin 1, Fin (-1), Fin 1, Fin (-1), Fin 5, Fin (-5)])"
    by (simp add: mad_pass_def eleven_median eleven_mad double_simps)
  show ?thesis
    using threshold_pass_fixed_point[of ?st "Fin 2.5" ?x ?y] unfolding p by simp
qed

subsection \<open>Reduced chi-square and degrees of freedom\<close>

lemma length_unguarded_linear_insert [simp]:
  "length (unguarded_linear_insert lt val xs) = Suc (length xs)"
  by (induction xs) auto

lemma length_insertion_step [simp]: "length (insertion_step lt xs val) = Suc (length xs)"
  by (simp add: insertion_step_def)

lemma length_foldl_insertion_step:
  "length (foldl (insertion_step lt) acc xs) = length acc + length xs"
  by (induction xs arbitrary: acc) auto

lemma length_sort_by [simp]: "length (sort_by lt xs) = length xs"
  by (cases xs) (simp_all add: length_foldl_insertion_step)

lemma try_configs_dataset:
  "try_configs solve K ps est cx cy u cfgs = Some accepted \<Longrightarrow>
   clean_x accepted = cx \<and> clean_y accepted = cy"
  by (induction cfgs) (auto split: prod.splits if_splits)

lemma try_datasets_dataset:
  "try_datasets solve K c ps datasets = Some accepted \<Longrightarrow>
   (clean_x accepted, clean_y accepted) \<in> set datasets \<and> 5 \<le> length (clean_x accepted)"
proof (induction datasets)
  case Nil
  then show ?case by simp
next
  case (Cons d datasets)
  obtain cx cy where d: "d = (cx, cy)" by (cases d)
  show ?case
  proof (cases "try_datasets solve K c ps datasets = Some accepted")
    case True
    with Cons.IH show ?thesis by simp
  next
    case False
    with Cons.prems d
    have "try_configs solve K ps (EstimatePowerLorentzianParameters cx cy c ps) cx cy
            (CalculatePowerLorentzianUncertainty K (max_element cy))
            (configs (EstimatePowerLorentzianParameters cx cy c ps)) = Some accepted"
      and "5 \<le> length cx"
      by (auto simp: Let_def split: if_splits option.splits)
    with try_configs_dataset d show ?thesis by fastforce
  qed
qed

lemma lenient_retry_length:
  "length (fst (lenient_retry stats k x_vals y_vals)) \<le> length x_vals"
  by (simp add: lenient_retry_def mad_pass_def Let_def threshold_pass_lengths(2))

lemma filter_output_length:
  "length (fst (FilterPowerLorentzianOutliers x_vals y_vals k)) \<le> length x_vals"
proof (cases "length x_vals \<noteq> length y_vals \<or> length x_vals < 5")
  case True
  then show ?thesis by (auto simp: FilterPowerLorentzianOutliers_def)
next
  case False
  then show ?thesis
    using lenient_retry_length[of "CalculateRobustStatisticsPowerLorentzian x_vals y_vals" k
            x_vals y_vals]
    by (simp add: filter_unfold Let_def)
qed

lemma filtered_datasets_length:
  assumes "(cx, cy) \<in> set (filtered_datasets x_vals y_vals en)"
  shows "length cx \<le> length x_vals"
proof -
  from assms have "cx = x_vals \<or> cx = fst (FilterPowerLorentzianOutliers x_vals y_vals (Fin 2.5)) \<or>
      cx = fst (FilterPowerLorentzianOutliers x_vals y_vals (Fin 3))"
    by (auto simp: filtered_datasets_def Let_def split: if_splits) (metis fst_conv)+
  then show ?thesis
    using filter_output_length[of x_vals y_vals "Fin 2.5"]
      filter_output_length[of x_vals y_vals "Fin 3"]
    by auto
qed

lemma write_results_chi2:
  "chi2_reduced (write_results covariance ps accepted out) =
     cost_value (final_cost (fitted_summary accepted)) * Fin 2 /
       Fin (of_int (degrees_of_freedom (length (clean_x accepted))))"
  by (simp add: write_results_def Let_def split: prod.splits)

lemma scaled_cost_nonnegative:
  assumes "Fin 0 \<le> c" and "1 \<le> d"
  shows "Fin 0 \<le> c * Fin 2 / Fin (of_int d)"
proof (cases c)
  case (Fin a)
  with assms(1) have a: "0 \<le> a" by simp
  have d: "(0::real) < of_int d" using assms(2) by simp
  have q: "0 \<le> a * 2 / of_int d" using a d by simp
  show ?thesis
  proof (cases "overflow_bound \<le> a * 2")
    case True
    then show ?thesis using Fin a d by (simp add: round_to_double_def divide_double_def)
  next
    case False
    have "\<not> a * 2 \<le> - overflow_bound"
      using a by (simp add: overflow_bound_def not_le)
    then show ?thesis
      using False Fin d q
      by (auto simp: round_to_double_def divide_double_def)
  qed
qed (use assms in \<open>auto simp: divide_double_def\<close>)

lemma chi2_nonnegative:
  "Fin 0 \<le> cost_value c * Fin 2 / Fin (of_int (degrees_of_freedom n))"
  by (rule scaled_cost_nonnegative) (simp_all add: cost_nonnegative degrees_of_freedom_def)

lemma fit_success_cases:
  "fst (FitPowerLorentzianCeres solve covariance K x y c ps out en) \<Longrightarrow>
   \<exists>accepted. try_datasets solve K c ps (filtered_datasets x y en) = Some accepted \<and>
     FitPowerLorentzianCeres solve covariance K x y c ps out en =
       (True, write_results covariance ps accepted out)"
  by (auto simp: FitPowerLorentzianCeres_def split: if_splits option.splits)

lemma fit_y_direction_keeps_x:
  "x_fit (snd (fit_y_direction solve covariance K col c ps en result)) = x_fit result"
  "x_dof (snd (fit_y_direction solve covariance K col c ps en result)) = x_dof result"
  by (simp_all add: fit_y_direction_def Let_def split: option.splits prod.splits)

lemma store_charge_uncertainties_keeps [simp]:
  "x_fit (store_charge_uncertainties K xs row ys col result) = x_fit result"
  "x_dof (store_charge_uncertainties K xs row ys col result) = x_dof result"
  "y_fit (store_charge_uncertainties K xs row ys col result) = y_fit result"
  "y_dof (store_charge_uncertainties K xs row ys col result) = y_dof result"
  by (simp_all add: store_charge_uncertainties_def Let_def split: option.splits)

lemma fit_x_direction_fields:
  "x_dof (snd (fit_x_direction solve covariance K (Some row_data) c ps en result)) =
     max 1 (int (length row_data) - 5)"
  "x_fit (snd (fit_x_direction solve covariance K (Some row_data) c ps en result)) =
     snd (FitPowerLorentzianCeres solve covariance K (map fst row_data) (map snd row_data) c ps
            (x_fit result) en)"
  by (simp_all add: fit_x_direction_def Let_def split: prod.splits)

lemma fit_y_direction_fields:
  "y_dof (snd (fit_y_direction solve covariance K (Some col_data) c ps en result)) =
     max 1 (int (length col_data) - 5)"
  by (simp add: fit_y_direction_def Let_def split: prod.splits)

lemma fit2d_unfold:
  assumes "length x_coords = length y_coords" "length x_coords = length charge_values"
    "5 \<le> length x_coords"
  shows "\<exists>xs ys.
    Fit2DPowerLorentzianCeres solve covariance K default_result x_coords y_coords charge_values
      cx cy ps en =
    store_charge_uncertainties K xs (selected_row x_coords y_coords charge_values cy ps)
      ys (selected_col x_coords y_coords charge_values cx ps)
      ((snd (fit_y_direction solve covariance K (selected_col x_coords y_coords charge_values cx ps)
               cy ps en
               (snd (fit_x_direction solve covariance K
                       (selected_row x_coords y_coords charge_values cy ps) cx ps en
                       default_result))))
         \<lparr>fit_successful := xs \<and> ys\<rparr>)"
  using assms
  by (auto simp: Fit2DPowerLorentzianCeres_def selected_row_def selected_col_def Let_def
           split: prod.splits)

lemma fit2d_x_fields:
  assumes "length x_coords = length y_coords" "length x_coords = length charge_values"
    "5 \<le> length x_coords"
    and "selected_row x_coords y_coords charge_values cy ps = Some row_data"
  shows "x_dof (Fit2DPowerLorentzianCeres solve covariance K default_result x_coords y_coords
            charge_values cx cy ps en) = max 1 (int (length row_data) - 5)"
    and "x_fit (Fit2DPowerLorentzianCeres solve covariance K default_result x_coords y_coords
            charge_values cx cy ps en) =
         snd (FitPowerLorentzianCeres solve covariance K (map fst row_data) (map snd row_data) cx ps
                (x_fit default_result) en)"
  using fit2d_unfold[OF assms(1-3), of solve covariance K default_result cx cy ps en] assms(4)
  by (auto simp: fit_y_direction_keeps_x fit_x_direction_fields)

lemma fit2d_y_dof:
  assumes "length x_coords = length y_coords" "length x_coords = length charge_values"
    "5 \<le> length x_coords"
    and "selected_col x_coords y_coords charge_values cx ps = Some col_data"
  shows "y_dof (Fit2DPowerLorentzianCeres solve covariance K default_result x_coords y_coords
            charge_values cx cy ps en) = max 1 (int (length col_data) - 5)"
  using fit2d_unfold[OF assms(1-3), of solve covariance K default_result cx cy ps en] assms(4)
  by (auto simp: fit_y_direction_fields)

lemma diagonal_sub_fit_dof:
  "diagonal_sub_fit solve covariance K d dps en out = Some (ok, out', dof, pp) \<Longrightarrow>
   dof = max 1 (int (length d) - 5)"
  by (auto simp: diagonal_sub_fit_def Let_def split: if_splits prod.splits)

lemma diagonal_sub_fit_runs:
  "5 \<le> length d \<Longrightarrow>
   \<exists>ok out' pp. diagonal_sub_fit solve covariance K d dps en out =
                   Some (ok, out', max 1 (int (length d) - 5), pp)"
  by (auto simp: diagonal_sub_fit_def Let_def split: prod.splits)

lemma fit_diagonal_dof_fields:
  assumes "length x_coords = length y_coords" "length x_coords = length charge_values"
    "5 \<le> length x_coords"
  shows "main_diag_x_dof (FitDiagonalPowerLorentzianCeres solve covariance K d r0 x_coords
            y_coords charge_values cx cy ps en) =
         (case diagonal_sub_fit solve covariance K
                 (fst (diagonal_lines r0 x_coords y_coords charge_values cx cy ps en))
                 (ps * Fin 1.41421356237) en (main_diag_x_fit d) of
            Some (ok, out, dof, pp) \<Rightarrow> dof | None \<Rightarrow> main_diag_x_dof d)"
    and "main_diag_y_dof (FitDiagonalPowerLorentzianCeres solve covariance K d r0 x_coords
            y_coords charge_values cx cy ps en) =
         (case diagonal_sub_fit solve covariance K
                 (fst (diagonal_lines r0 x_coords y_coords charge_values cx cy ps en))
                 (ps * Fin 1.41421356237) en (main_diag_y_fit d) of
            Some (ok, out, dof, pp) \<Rightarrow> dof | None \<Rightarrow> main_diag_y_dof d)"
    and "sec_diag_x_dof (FitDiagonalPowerLorentzianCeres solve covariance K d r0 x_coords
            y_coords charge_values cx cy ps en) =
         (case diagonal_sub_fit solve covariance K
                 (snd (diagonal_lines r0 x_coords y_coords charge_values cx cy ps en))
                 (ps * Fin 1.41421356237) en (sec_diag_x_fit d) of
            Some (ok, out, dof, pp) \<Rightarrow> dof | None \<Rightarrow> sec_diag_x_dof d)"
    and "sec_diag_y_dof (FitDiagonalPowerLorentzianCeres solve covariance K d r0 x_coords
            y_coords charge_values cx cy ps en) =
         (case diagonal_sub_fit solve covariance K
                 (snd (diagonal_lines r0 x_coords y_coords charge_values cx cy ps en))
                 (ps * Fin 1.41421356237) en (sec_diag_y_fit d) of
            Some (ok, out, dof, pp) \<Rightarrow> dof | None \<Rightarrow> sec_diag_y_dof d)"
  using assms
  by (auto simp: FitDiagonalPowerLorentzianCeres_def Let_def diagonal_lines_def
           split: prod.splits option.splits)

lemma fit_diagonal_main_dof:
  assumes "length x_coords = length y_coords" "length x_coords = length charge_values"
    "5 \<le> length x_coords"
    and "5 \<le> length (fst (diagonal_lines r0 x_coords y_coords charge_values cx cy ps en))"
  shows "main_diag_x_dof (FitDiagonalPowerLorentzianCeres solve covariance K d r0 x_coords
            y_coords charge_values cx cy ps en) =
         max 1 (int (length (fst (diagonal_lines r0 x_coords y_coords charge_values cx cy ps
                                    en))) - 5)"
    and "main_diag_y_dof (FitDiagonalPowerLorentzianCeres solve covariance K d r0 x_coords
            y_coords charge_values cx cy ps en) =
         max 1 (int (length (fst (diagonal_lines r0 x_coords y_coords charge_values cx cy ps
                                    en))) - 5)"
proof -
  let ?l = "fst (diagonal_lines r0 x_coords y_coords charge_values cx cy ps en)"
  obtain ok out' pp where
    "diagonal_sub_fit solve covariance K ?l (ps * Fin 1.41421356237) en (main_diag_x_fit d) =
       Some (ok, out', max 1 (int (length ?l) - 5), pp)"
    using diagonal_sub_fit_runs[OF assms(4)] by blast
  then show "main_diag_x_dof (FitDiagonalPowerLorentzianCeres solve covariance K d r0 x_coords
            y_coords charge_values cx cy ps en) = max 1 (int (length ?l) - 5)"
    by (simp add: fit_diagonal_dof_fields(1)[OF assms(1-3)])
  obtain ok out' pp where
    "diagonal_sub_fit solve covariance K ?l (ps * Fin 1.41421356237) en (main_diag_y_fit d) =
       Some (ok, out', max 1 (int (length ?l) - 5), pp)"
    using diagonal_sub_fit_runs[OF assms(4)] by blast
  then show "main_diag_y_dof (FitDiagonalPowerLorentzianCeres solve covariance K d r0 x_coords
            y_coords charge_values cx cy ps en) = max 1 (int (length ?l) - 5)"
    by (simp add: fit_diagonal_dof_fields(2)[OF assms(1-3)])
qed

lemma fit_diagonal_sec_dof:
  assumes "length x_coords = length y_coords" "length x_coords = length charge_values"
    "5 \<le> length x_coords"
    and "5 \<le> length (snd (diagonal_lines r0 x_coords y_coords charge_values cx cy ps en))"
  shows "sec_diag_x_dof (FitDiagonalPowerLorentzianCeres solve covariance K d r0 x_coords
            y_coords charge_values cx cy ps en) =
         max 1 (int (length (snd (diagonal_lines r0 x_coords y_coords charge_values cx cy ps
                                    en))) - 5)"
    and "sec_diag_y_dof (FitDiagonalPowerLorentzianCeres solve covariance K d r0 x_coords
            y_coords charge_values cx cy ps en) =
         max 1 (int (length (snd (diagonal_lines r0 x_coords y_coords charge_values cx cy ps
                                    en))) - 5)"
proof -
  let ?l = "snd (diagonal_lines r0 x_coords y_coords charge_values cx cy ps en)"
  obtain ok out' pp where
    "diagonal_sub_fit solve covariance K ?l (ps * Fin 1.41421356237) en (sec_diag_x_fit d) =
       Some (ok, out', max 1 (int (length ?l) - 5), pp)"
    using diagonal_sub_fit_runs[OF assms(4)] by blast
  then show "sec_diag_x_dof (FitDiagonalPowerLorentzianCeres solve covariance K d r0 x_coords
            y_coords charge_values cx cy ps en) = max 1 (int (length ?l) - 5)"
    by (simp add: fit_diagonal_dof_fields(3)[OF assms(1-3)])
  obtain ok out' pp where
    "diagonal_sub_fit solve covariance K ?l (ps * Fin 1.41421356237) en (sec_diag_y_fit d) =
       Some (ok, out', max 1 (int (length ?l) - 5), pp)"
    using diagonal_sub_fit_runs[OF assms(4)] by blast
  then show "sec_diag_y_dof (FitDiagonalPowerLorentzianCeres solve covariance K d r0 x_coords
            y_coords charge_values cx cy ps en) = max 1 (int (length ?l) - 5)"
    by (simp add: fit_diagonal_dof_fields(4)[OF assms(1-3)])
qed

lemma line_filtered:
  "FilterPowerLorentzianOutliers line_x line_charge (Fin 2.5) =
     ([Fin 0, Fin 1, Fin 2, Fin 3, Fin 4, Fin 5, Fin 6],
      [Fin 1, Fin 2, Fin 3, Fin 4, Fin 3, Fin 2, Fin 1])"
  by (simp add: filter_simps double_simps vector_simps statistics_simps)

lemma line_row:
  "selected_row line_x line_y line_charge (Fin 0) (Fin 1) =
     Some [(Fin 0, Fin 1), (Fin 1, Fin 2), (Fin 2, Fin 3), (Fin 3, Fin 4), (Fin 4, Fin 3),
           (Fin 5, Fin 2), (Fin 6, Fin 1), (Fin 7, Fin 1000)]"
  "selected_col line_x line_y line_charge (Fin 3) (Fin 1) = None"
  by (simp_all add: grouping_simps double_simps)

lemma line_datasets:
  "filtered_datasets line_x line_charge True =
     ([Fin 0, Fin 1, Fin 2, Fin 3, Fin 4, Fin 5, Fin 6],
      [Fin 1, Fin 2, Fin 3, Fin 4, Fin 3, Fin 2, Fin 1]) #
     (let lenient_data = FilterPowerLorentzianOutliers line_x line_charge (Fin 3)
      in if 5 \<le> length (fst lenient_data) then [lenient_data] else []) @
     [(line_x, line_charge)]"
  unfolding filtered_datasets_def line_filtered by simp

lemma line_accepted:
  "\<exists>problem.
     try_datasets (instant_solve sample_parameters (finite_cost 3)) sample_constants (Fin 3) (Fin 1)
       (filtered_datasets line_x line_charge True) =
     Some \<lparr>clean_x = [Fin 0, Fin 1, Fin 2, Fin 3, Fin 4, Fin 5, Fin 6],
           clean_y = [Fin 1, Fin 2, Fin 3, Fin 4, Fin 3, Fin 2, Fin 1],
           fitted_problem = problem, fitted_parameters = sample_parameters,
           fitted_summary = \<lparr>termination_type = CONVERGENCE, final_cost = finite_cost 3\<rparr>\<rparr>"
  unfolding line_datasets
  by (rule instant_solve_accepted) (simp_all add: sample_fit_accepted)

lemma line_fit:
  "fst (FitPowerLorentzianCeres (instant_solve sample_parameters (finite_cost 3)) no_covariance
          sample_constants line_x line_charge (Fin 3) (Fin 1) out True)"
  "chi2_reduced (snd (FitPowerLorentzianCeres (instant_solve sample_parameters (finite_cost 3))
      no_covariance sample_constants line_x line_charge (Fin 3) (Fin 1) out True)) = Fin 3"
  using line_accepted
  by (auto simp: FitPowerLorentzianCeres_def write_results_chi2 degrees_of_freedom_def
        finite_cost_value double_simps)

lemma star_lines:
  "selected_row star_x star_y star_charge (Fin 0) (Fin 1) =
     Some [(Fin (-3), Fin 1), (Fin (-2), Fin 2), (Fin (-1), Fin 3), (Fin 0, Fin 4),
           (Fin 1, Fin 3), (Fin 2, Fin 2), (Fin 3, Fin 1)]"
  "selected_col star_x star_y star_charge (Fin 0) (Fin 1) =
     Some [(Fin (-2), Fin 2), (Fin (-1), Fin 3), (Fin 0, Fin 4), (Fin 1, Fin 3), (Fin 2, Fin 2)]"
  by (simp_all add: grouping_simps double_simps)

lemma star_diagonals:
  "diagonal_lines zero_removal_result star_x star_y star_charge (Fin 0) (Fin 0) (Fin 1) False =
     ([(Fin 0, Fin 4), (Fin (-2), Fin 2), (Fin (-1), Fin 3), (Fin 1, Fin 3), (Fin 2, Fin 2)],
      [(Fin 0, Fin 4), (Fin (-2), Fin 2), (Fin (-1), Fin 3), (Fin 1, Fin 3), (Fin 2, Fin 2)])"
  by (simp add: diagonal_lines_def diagonal_input_def diagonal_data_def double_simps Let_def)

text \<open>
  Claim C6, as stated, fails in its second part. With outlier filtering enabled the fit of
  the row of eight points is accepted on the filtered dataset of seven points, for which
  \<open>max(1, n - 5)\<close> is 2 and by which the reduced chi-square is computed (final cost 3,
  reduced chi-square 3), while the coordinator reports 3 degrees of freedom, computed from
  the eight points of the row.
\<close>

theorem reported_degrees_of_freedom_counterexample:
  "map_option (length \<circ> clean_x)
     (try_datasets (instant_solve sample_parameters (finite_cost 3)) sample_constants (Fin 3) (Fin 1)
        (filtered_datasets line_x line_charge True)) = Some 7 \<and>
   max 1 (int 7 - 5) = 2 \<and>
   x_dof (Fit2DPowerLorentzianCeres (instant_solve sample_parameters (finite_cost 3)) no_covariance
            sample_constants zero_2d_result line_x line_y line_charge (Fin 3) (Fin 0) (Fin 1) True)
     = 3 \<and>
   chi2_reduced (x_fit (Fit2DPowerLorentzianCeres (instant_solve sample_parameters (finite_cost 3))
            no_covariance sample_constants zero_2d_result line_x line_y line_charge
            (Fin 3) (Fin 0) (Fin 1) True)) = Fin 3"
proof (intro conjI)
  show "map_option (length \<circ> clean_x)
     (try_datasets (instant_solve sample_parameters (finite_cost 3)) sample_constants (Fin 3) (Fin 1)
        (filtered_datasets line_x line_charge True)) = Some 7"
    using line_accepted by auto
  show "max 1 (int 7 - 5) = 2" by simp
  have l: "length line_x = length line_y" "length line_x = length line_charge" "5 \<le> length line_x"
    by simp_all
  show "x_dof (Fit2DPowerLorentzianCeres (instant_solve sample_parameters (finite_cost 3)) no_covariance
            sample_constants zero_2d_result line_x line_y line_charge (Fin 3) (Fin 0) (Fin 1) True)
     = 3"
    using fit2d_x_fields(1)[OF l line_row(1)] by simp
  show "chi2_reduced (x_fit (Fit2DPowerLorentzianCeres (instant_solve sample_parameters (finite_cost 3))
            no_covariance sample_constants zero_2d_result line_x line_y line_charge
            (Fin 3) (Fin 0) (Fin 1) True)) = Fin 3"
    using fit2d_x_fields(2)[OF l line_row(1)] line_fit(2) by simp
qed

text \<open>
  Claim C6, amended. For every successful one-dimensional fit there is an accepted dataset,
  of \<open>n\<close> points with \<open>5 \<le> n\<close> and \<open>n\<close> at most the size of the profile, such that the
  reduced chi-square is twice the final cost of the solver divided by \<open>max(1, n - 5)\<close>,
  and the reduced chi-square is non-negative, the final cost of an accepted solve being half
  a sum of squares (type \<open>cost\<close>). The degrees of freedom that the coordinators
  report are \<open>max(1, m - 5)\<close> for the number \<open>m\<close> of points of the line handed to the fit:
  \<open>x_dof\<close> for the selected row, \<open>y_dof\<close> for the selected column, \<open>main_diag_x_dof\<close> and
  \<open>main_diag_y_dof\<close> for the main diagonal, \<open>sec_diag_x_dof\<close> and \<open>sec_diag_y_dof\<close> for the
  secondary diagonal, whatever the number \<open>n\<close> of points of the dataset that the fit accepts.
\<close>

theorem reduced_chi_square_and_degrees_of_freedom:
  "(fst (FitPowerLorentzianCeres solve covariance K x_vals y_vals c ps out en) \<longrightarrow>
      (\<exists>accepted.
         try_datasets solve K c ps (filtered_datasets x_vals y_vals en) = Some accepted \<and>
         5 \<le> length (clean_x accepted) \<and> length (clean_x accepted) \<le> length x_vals \<and>
         chi2_reduced (snd (FitPowerLorentzianCeres solve covariance K x_vals y_vals c ps out en)) =
           cost_value (final_cost (fitted_summary accepted)) * Fin 2 /
             Fin (of_int (max 1 (int (length (clean_x accepted)) - 5))) \<and>
         Fin 0 \<le> chi2_reduced
           (snd (FitPowerLorentzianCeres solve covariance K x_vals y_vals c ps out en)))) \<and>
   (length x_coords = length y_coords \<and> length x_coords = length charge_values \<and>
    5 \<le> length x_coords \<longrightarrow>
      (\<forall>row_data. selected_row x_coords y_coords charge_values cy pixel_spacing = Some row_data \<longrightarrow>
         x_dof (Fit2DPowerLorentzianCeres solve covariance K default_result x_coords y_coords
                  charge_values cx cy pixel_spacing filtering) =
           max 1 (int (length row_data) - 5)) \<and>
      (\<forall>col_data. selected_col x_coords y_coords charge_values cx pixel_spacing = Some col_data \<longrightarrow>
         y_dof (Fit2DPowerLorentzianCeres solve covariance K default_result x_coords y_coords
                  charge_values cx cy pixel_spacing filtering) =
           max 1 (int (length col_data) - 5)) \<and>
      (5 \<le> length (fst (diagonal_lines default_removal x_coords y_coords charge_values cx cy
                           pixel_spacing filtering)) \<longrightarrow>
         main_diag_x_dof (FitDiagonalPowerLorentzianCeres solve covariance K default_diagonal
              default_removal x_coords y_coords charge_values cx cy pixel_spacing filtering) =
           max 1 (int (length (fst (diagonal_lines default_removal x_coords y_coords
                                      charge_values cx cy pixel_spacing filtering))) - 5) \<and>
         main_diag_y_dof (FitDiagonalPowerLorentzianCeres solve covariance K default_diagonal
              default_removal x_coords y_coords charge_values cx cy pixel_spacing filtering) =
           max 1 (int (length (fst (diagonal_lines default_removal x_coords y_coords
                                      charge_values cx cy pixel_spacing filtering))) - 5)) \<and>
      (5 \<le> length (snd (diagonal_lines default_removal x_coords y_coords charge_values cx cy
                           pixel_spacing filtering)) \<longrightarrow>
         sec_diag_x_dof (FitDiagonalPowerLorentzianCeres solve covariance K default_diagonal
              default_removal x_coords y_coords charge_values cx cy pixel_spacing filtering) =
           max 1 (int (length (snd (diagonal_lines default_removal x_coords y_coords
                                      charge_values cx cy pixel_spacing filtering))) - 5) \<and>
         sec_diag_y_dof (FitDiagonalPowerLorentzianCeres solve covariance K default_diagonal
              default_removal x_coords y_coords charge_values cx cy pixel_spacing filtering) =
           max 1 (int (length (snd (diagonal_lines default_removal x_coords y_coords
                                      charge_values cx cy pixel_spacing filtering))) - 5)))"
proof (rule conjI)
  show "fst (FitPowerLorentzianCeres solve covariance K x_vals y_vals c ps out en) \<longrightarrow>
      (\<exists>accepted.
         try_datasets solve K c ps (filtered_datasets x_vals y_vals en) = Some accepted \<and>
         5 \<le> length (clean_x accepted) \<and> length (clean_x accepted) \<le> length x_vals \<and>
         chi2_reduced (snd (FitPowerLorentzianCeres solve covariance K x_vals y_vals c ps out en)) =
           cost_value (final_cost (fitted_summary accepted)) * Fin 2 /
             Fin (of_int (max 1 (int (length (clean_x accepted)) - 5))) \<and>
         Fin 0 \<le> chi2_reduced
           (snd (FitPowerLorentzianCeres solve covariance K x_vals y_vals c ps out en)))"
  proof
    assume ok: "fst (FitPowerLorentzianCeres solve covariance K x_vals y_vals c ps out en)"
    then obtain accepted where
      a: "try_datasets solve K c ps (filtered_datasets x_vals y_vals en) = Some accepted"
      and f: "FitPowerLorentzianCeres solve covariance K x_vals y_vals c ps out en =
                (True, write_results covariance ps accepted out)"
      using fit_success_cases by blast
    have d: "(clean_x accepted, clean_y accepted) \<in> set (filtered_datasets x_vals y_vals en)"
      "5 \<le> length (clean_x accepted)"
      using try_datasets_dataset[OF a] by simp_all
    have l: "length (clean_x accepted) \<le> length x_vals"
      using filtered_datasets_length[OF d(1)] .
    have c2: "chi2_reduced
                (snd (FitPowerLorentzianCeres solve covariance K x_vals y_vals c ps out en)) =
              cost_value (final_cost (fitted_summary accepted)) * Fin 2 /
                Fin (of_int (max 1 (int (length (clean_x accepted)) - 5)))"
      using f by (simp add: write_results_chi2 degrees_of_freedom_def)
    have nn: "Fin 0 \<le> chi2_reduced
                (snd (FitPowerLorentzianCeres solve covariance K x_vals y_vals c ps out en))"
      using f chi2_nonnegative[of "final_cost (fitted_summary accepted)"
                                  "length (clean_x accepted)"]
      by (simp add: write_results_chi2)
    show "\<exists>accepted.
           try_datasets solve K c ps (filtered_datasets x_vals y_vals en) = Some accepted \<and>
           5 \<le> length (clean_x accepted) \<and> length (clean_x accepted) \<le> length x_vals \<and>
           chi2_reduced
             (snd (FitPowerLorentzianCeres solve covariance K x_vals y_vals c ps out en)) =
             cost_value (final_cost (fitted_summary accepted)) * Fin 2 /
               Fin (of_int (max 1 (int (length (clean_x accepted)) - 5))) \<and>
           Fin 0 \<le> chi2_reduced
             (snd (FitPowerLorentzianCeres solve covariance K x_vals y_vals c ps out en))"
      using a d(2) l c2 nn by blast
  qed
next
  show "length x_coords = length y_coords \<and> length x_coords = length charge_values \<and>
    5 \<le> length x_coords \<longrightarrow>
      (\<forall>row_data. selected_row x_coords y_coords charge_values cy pixel_spacing = Some row_data \<longrightarrow>
         x_dof (Fit2DPowerLorentzianCeres solve covariance K default_result x_coords y_coords
                  charge_values cx cy pixel_spacing filtering) =
           max 1 (int (length row_data) - 5)) \<and>
      (\<forall>col_data. selected_col x_coords y_coords charge_values cx pixel_spacing = Some col_data \<longrightarrow>
         y_dof (Fit2DPowerLorentzianCeres solve covariance K default_result x_coords y_coords
                  charge_values cx cy pixel_spacing filtering) =
           max 1 (int (length col_data) - 5)) \<and>
      (5 \<le> length (fst (diagonal_lines default_removal x_coords y_coords charge_values cx cy
                           pixel_spacing filtering)) \<longrightarrow>
         main_diag_x_dof (FitDiagonalPowerLorentzianCeres solve covariance K default_diagonal
              default_removal x_coords y_coords charge_values cx cy pixel_spacing filtering) =
           max 1 (int (length (fst (diagonal_lines default_removal x_coords y_coords
                                      charge_values cx cy pixel_spacing filtering))) - 5) \<and>
         main_diag_y_dof (FitDiagonalPowerLorentzianCeres solve covariance K default_diagonal
              default_removal x_coords y_coords charge_values cx cy pixel_spacing filtering) =
           max 1 (int (length (fst (diagonal_lines default_removal x_coords y_coords
                                      charge_values cx cy pixel_spacing filtering))) - 5)) \<and>
      (5 \<le> length (snd (diagonal_lines default_removal x_coords y_coords charge_values cx cy
                           pixel_spacing filtering)) \<longrightarrow>
         sec_diag_x_dof (FitDiagonalPowerLorentzianCeres solve covariance K default_diagonal
              default_removal x_coords y_coords charge_values cx cy pixel_spacing filtering) =
           max 1 (int (length (snd (diagonal_lines default_removal x_coords y_coords
                                      charge_values cx cy pixel_spacing filtering))) - 5) \<and>
         sec_diag_y_dof (FitDiagonalPowerLorentzianCeres solve covariance K default_diagonal
              default_removal x_coords y_coords charge_values cx cy pixel_spacing filtering) =
           max 1 (int (length (snd (diagonal_lines default_removal x_coords y_coords
                                      charge_values cx cy pixel_spacing filtering))) - 5))"
  proof (intro impI conjI allI)
    fix row_data
    assume g: "length x_coords = length y_coords \<and> length x_coords = length charge_values \<and>
               5 \<le> length x_coords"
      and r: "selected_row x_coords y_coords charge_values cy pixel_spacing = Some row_data"
    show "x_dof (Fit2DPowerLorentzianCeres solve covariance K default_result x_coords y_coords
                    charge_values cx cy pixel_spacing filtering) =
            max 1 (int (length row_data) - 5)"
      using fit2d_x_fields(1)[of x_coords y_coords charge_values cy pixel_spacing row_data] g r
      by blast
  next
    fix col_data
    assume g: "length x_coords = length y_coords \<and> length x_coords = length charge_values \<and>
               5 \<le> length x_coords"
      and r: "selected_col x_coords y_coords charge_values cx pixel_spacing = Some col_data"
    show "y_dof (Fit2DPowerLorentzianCeres solve covariance K default_result x_coords y_coords
                    charge_values cx cy pixel_spacing filtering) =
            max 1 (int (length col_data) - 5)"
      using fit2d_y_dof[of x_coords y_coords charge_values cx pixel_spacing col_data] g r
      by blast
  next
    assume g: "length x_coords = length y_coords \<and> length x_coords = length charge_values \<and>
               5 \<le> length x_coords"
      and m: "5 \<le> length (fst (diagonal_lines default_removal x_coords y_coords charge_values
                                   cx cy pixel_spacing filtering))"
    show "main_diag_x_dof (FitDiagonalPowerLorentzianCeres solve covariance K default_diagonal
              default_removal x_coords y_coords charge_values cx cy pixel_spacing filtering) =
           max 1 (int (length (fst (diagonal_lines default_removal x_coords y_coords
                                      charge_values cx cy pixel_spacing filtering))) - 5)"
      using fit_diagonal_main_dof(1)[of x_coords y_coords charge_values] g m by blast
    show "main_diag_y_dof (FitDiagonalPowerLorentzianCeres solve covariance K default_diagonal
              default_removal x_coords y_coords charge_values cx cy pixel_spacing filtering) =
           max 1 (int (length (fst (diagonal_lines default_removal x_coords y_coords
                                      charge_values cx cy pixel_spacing filtering))) - 5)"
      using fit_diagonal_main_dof(2)[of x_coords y_coords charge_values] g m by blast
  next
    assume g: "length x_coords = length y_coords \<and> length x_coords = length charge_values \<and>
               5 \<le> length x_coords"
      and m: "5 \<le> length (snd (diagonal_lines default_removal x_coords y_coords charge_values
                                   cx cy pixel_spacing filtering))"
    show "sec_diag_x_dof (FitDiagonalPowerLorentzianCeres solve covariance K default_diagonal
              default_removal x_coords y_coords charge_values cx cy pixel_spacing filtering) =
           max 1 (int (length (snd (diagonal_lines default_removal x_coords y_coords
                                      charge_values cx cy pixel_spacing filtering))) - 5)"
      using fit_diagonal_sec_dof(1)[of x_coords y_coords charge_values] g m by blast
    show "sec_diag_y_dof (FitDiagonalPowerLorentzianCeres solve covariance K default_diagonal
              default_removal x_coords y_coords charge_values cx cy pixel_spacing filtering) =
           max 1 (int (length (snd (diagonal_lines default_removal x_coords y_coords
                                      charge_values cx cy pixel_spacing filtering))) - 5)"
      using fit_diagonal_sec_dof(2)[of x_coords y_coords charge_values] g m by blast
  qed
qed

text \<open>
  The theorem at the row of eight points, fitted with outlier filtering, and at the point
  set with a row of seven points, a column of five and two diagonals of five.
\<close>

theorem reduced_chi_square_and_degrees_of_freedom_witness:
  "Fin 0 \<le> chi2_reduced (snd (FitPowerLorentzianCeres (instant_solve sample_parameters (finite_cost 3))
      no_covariance sample_constants line_x line_charge (Fin 3) (Fin 1) zero_outputs True)) \<and>
   x_dof (Fit2DPowerLorentzianCeres (instant_solve sample_parameters (finite_cost 3)) no_covariance
            sample_constants zero_2d_result star_x star_y star_charge (Fin 0) (Fin 0) (Fin 1) False)
     = 2 \<and>
   y_dof (Fit2DPowerLorentzianCeres (instant_solve sample_parameters (finite_cost 3)) no_covariance
            sample_constants zero_2d_result star_x star_y star_charge (Fin 0) (Fin 0) (Fin 1) False)
     = 1 \<and>
   main_diag_x_dof (FitDiagonalPowerLorentzianCeres (instant_solve sample_parameters (finite_cost 3))
            no_covariance sample_constants zero_diagonal_result zero_removal_result
            star_x star_y star_charge (Fin 0) (Fin 0) (Fin 1) False) = 1 \<and>
   main_diag_y_dof (FitDiagonalPowerLorentzianCeres (instant_solve sample_parameters (finite_cost 3))
            no_covariance sample_constants zero_diagonal_result zero_removal_result
            star_x star_y star_charge (Fin 0) (Fin 0) (Fin 1) False) = 1 \<and>
   sec_diag_x_dof (FitDiagonalPowerLorentzianCeres (instant_solve sample_parameters (finite_cost 3))
            no_covariance sample_constants zero_diagonal_result zero_removal_result
            star_x star_y star_charge (Fin 0) (Fin 0) (Fin 1) False) = 1 \<and>
   sec_diag_y_dof (FitDiagonalPowerLorentzianCeres (instant_solve sample_parameters (finite_cost 3))
            no_covariance sample_constants zero_diagonal_result zero_removal_result
            star_x star_y star_charge (Fin 0) (Fin 0) (Fin 1) False) = 1"
proof -
  let ?solve = "instant_solve sample_parameters (finite_cost 3)"
  note t = reduced_chi_square_and_degrees_of_freedom[where solve = ?solve
      and covariance = no_covariance and K = sample_constants and x_vals = line_x
      and y_vals = line_charge and c = "Fin 3" and ps = "Fin 1" and out = zero_outputs
      and en = True and x_coords = star_x and y_coords = star_y and charge_values = star_charge
      and cx = "Fin 0" and cy = "Fin 0" and pixel_spacing = "Fin 1" and filtering = False
      and default_result = zero_2d_result and default_diagonal = zero_diagonal_result
      and default_removal = zero_removal_result]
  from t line_fit(1)[of zero_outputs]
  have 1: "Fin 0 \<le> chi2_reduced (snd (FitPowerLorentzianCeres ?solve no_covariance
              sample_constants line_x line_charge (Fin 3) (Fin 1) zero_outputs True))"
    by blast
  have l: "length star_x = length star_y \<and> length star_x = length star_charge \<and>
           5 \<le> length star_x"
    by simp
  have d: "5 \<le> length (fst (diagonal_lines zero_removal_result star_x star_y star_charge (Fin 0)
                               (Fin 0) (Fin 1) False))"
    "5 \<le> length (snd (diagonal_lines zero_removal_result star_x star_y star_charge (Fin 0)
                               (Fin 0) (Fin 1) False))"
    by (simp_all add: star_diagonals)
  from t l star_lines(1)
  have 2: "x_dof (Fit2DPowerLorentzianCeres ?solve no_covariance sample_constants zero_2d_result
                 star_x star_y star_charge (Fin 0) (Fin 0) (Fin 1) False) =
        max 1 (int (length [(Fin (-3), Fin 1), (Fin (-2), Fin 2), (Fin (-1), Fin 3),
                            (Fin 0, Fin 4), (Fin 1, Fin 3), (Fin 2, Fin 2), (Fin 3, Fin 1)]) - 5)"
    by blast
  from t l star_lines(2)
  have 3: "y_dof (Fit2DPowerLorentzianCeres ?solve no_covariance sample_constants zero_2d_result
                 star_x star_y star_charge (Fin 0) (Fin 0) (Fin 1) False) =
        max 1 (int (length [(Fin (-2), Fin 2), (Fin (-1), Fin 3), (Fin 0, Fin 4),
                            (Fin 1, Fin 3), (Fin 2, Fin 2)]) - 5)"
    by blast
  from t l d(1)
  have 4: "main_diag_x_dof (FitDiagonalPowerLorentzianCeres ?solve no_covariance sample_constants
              zero_diagonal_result zero_removal_result star_x star_y star_charge (Fin 0) (Fin 0)
              (Fin 1) False) =
           max 1 (int (length (fst (diagonal_lines zero_removal_result star_x star_y star_charge
                                      (Fin 0) (Fin 0) (Fin 1) False))) - 5)"
    "main_diag_y_dof (FitDiagonalPowerLorentzianCeres ?solve no_covariance sample_constants
              zero_diagonal_result zero_removal_result star_x star_y star_charge (Fin 0) (Fin 0)
              (Fin 1) False) =
           max 1 (int (length (fst (diagonal_lines zero_removal_result star_x star_y star_charge
                                      (Fin 0) (Fin 0) (Fin 1) False))) - 5)"
    by blast+
  from t l d(2)
  have 5: "sec_diag_x_dof (FitDiagonalPowerLorentzianCeres ?solve no_covariance sample_constants
              zero_diagonal_result zero_removal_result star_x star_y star_charge (Fin 0) (Fin 0)
              (Fin 1) False) =
           max 1 (int (length (snd (diagonal_lines zero_removal_result star_x star_y star_charge
                                      (Fin 0) (Fin 0) (Fin 1) False))) - 5)"
    "sec_diag_y_dof (FitDiagonalPowerLorentzianCeres ?solve no_covariance sample_constants
              zero_diagonal_result zero_removal_result star_x star_y star_charge (Fin 0) (Fin 0)
              (Fin 1) False) =
           max 1 (int (length (snd (diagonal_lines zero_removal_result star_x star_y star_charge
                                      (Fin 0) (Fin 0) (Fin 1) False))) - 5)"
    by blast+
  show ?thesis
    unfolding 2 3 4 5 star_diagonals using 1 by simp
qed

subsection \<open>The lenient retry of the filter\<close>

lemma threshold_pass_filter:
  "length xs = length ys \<Longrightarrow>
   threshold_pass lower upper xs ys =
     (map fst (filter (\<lambda>p. lower \<le> snd p \<and> snd p \<le> upper) (zip xs ys)),
      map snd (filter (\<lambda>p. lower \<le> snd p \<and> snd p \<le> upper) (zip xs ys)))"
  by (induction xs ys rule: list_induct2) (auto simp: Let_def)

lemma below_half_iff:
  assumes "kept \<le> (n::nat)"
  shows "kept < n div 2 \<longleftrightarrow> n + n mod 2 < 2 * (n - kept)"
  using assms by presburger

text \<open>
  The profile of seven points with one NaN charge. The sort leaves the charges in place, the
  median is 11 and the MAD is 1.4826.
\<close>

lemma gap_median:
  "median (CalculateRobustStatisticsPowerLorentzian gap_x gap_charge) = Fin 11"
  by (simp add: statistics_median median_of_sorted_def vector_simps)

lemma gap_mad:
  "mad (CalculateRobustStatisticsPowerLorentzian gap_x gap_charge) = Fin 1.4826"
  unfolding statistics_mad[of gap_x gap_charge, simplified] gap_median
  by (simp add: raw_mad_def safeguard_mad_def double_simps vector_simps)

lemma gap_conservative_pass:
  "mad_pass (CalculateRobustStatisticsPowerLorentzian gap_x gap_charge) (Fin 2.5) gap_x
     gap_charge = ([Fin 0, Fin 2, Fin 3], [Fin 10, Fin 10, Fin 11])"
  by (simp add: mad_pass_def gap_median gap_mad double_simps)

lemma gap_lenient_pass:
  "mad_pass (CalculateRobustStatisticsPowerLorentzian gap_x gap_charge) (Fin 4) gap_x
     gap_charge =
     ([Fin 0, Fin 2, Fin 3, Fin 4, Fin 5, Fin 6], [Fin 10, Fin 10, Fin 11, Fin 15, Fin 15, Fin 15])"
  by (simp add: mad_pass_def gap_median gap_mad double_simps)

text \<open>
  Claim C4, as stated, fails. The retry is taken when the pass keeps fewer than \<open>size / 2\<close>
  points, a division of unsigned integers, and for an odd number of points that is not when
  more than half of them are removed. Of the seven points with charges
  \<open>10, NaN, 10, 11, 15, 15, 15\<close> the pass with threshold 2.5 keeps three and removes four, more
  than half; three is not less than \<open>7 / 2 = 3\<close>, so no retry is made, and as fewer than five
  points are left the filter returns the seven original points, not the six points that the
  pass with threshold 4.0 keeps.
\<close>

theorem lenient_retry_counterexample:
  "mad_pass (CalculateRobustStatisticsPowerLorentzian gap_x gap_charge) (Fin 2.5) gap_x
     gap_charge = ([Fin 0, Fin 2, Fin 3], [Fin 10, Fin 10, Fin 11]) \<and>
   length gap_x <
     2 * (length gap_x -
          length (fst (mad_pass (CalculateRobustStatisticsPowerLorentzian gap_x gap_charge)
                         (Fin 2.5) gap_x gap_charge))) \<and>
   mad_pass (CalculateRobustStatisticsPowerLorentzian gap_x gap_charge) (Fin 4) gap_x
     gap_charge =
     ([Fin 0, Fin 2, Fin 3, Fin 4, Fin 5, Fin 6],
      [Fin 10, Fin 10, Fin 11, Fin 15, Fin 15, Fin 15]) \<and>
   FilterPowerLorentzianOutliers gap_x gap_charge (Fin 2.5) = (gap_x, gap_charge)"
proof (intro conjI)
  show "mad_pass (CalculateRobustStatisticsPowerLorentzian gap_x gap_charge) (Fin 2.5) gap_x
     gap_charge = ([Fin 0, Fin 2, Fin 3], [Fin 10, Fin 10, Fin 11])"
    by (rule gap_conservative_pass)
  show "length gap_x <
     2 * (length gap_x -
          length (fst (mad_pass (CalculateRobustStatisticsPowerLorentzian gap_x gap_charge)
                         (Fin 2.5) gap_x gap_charge)))"
    unfolding gap_conservative_pass by simp
  show "mad_pass (CalculateRobustStatisticsPowerLorentzian gap_x gap_charge) (Fin 4) gap_x
     gap_charge =
     ([Fin 0, Fin 2, Fin 3, Fin 4, Fin 5, Fin 6],
      [Fin 10, Fin 10, Fin 11, Fin 15, Fin 15, Fin 15])"
    by (rule gap_lenient_pass)
  have "lenient_retry (CalculateRobustStatisticsPowerLorentzian gap_x gap_charge) (Fin 2.5)
          gap_x gap_charge = ([Fin 0, Fin 2, Fin 3], [Fin 10, Fin 10, Fin 11])"
    unfolding lenient_retry_def gap_conservative_pass by simp
  then show "FilterPowerLorentzianOutliers gap_x gap_charge (Fin 2.5) = (gap_x, gap_charge)"
    by (simp add: filter_unfold)
qed

text \<open>
  The profile of thirteen finite charges. The sum of the charges and the scaled median
  deviation overflow, so the standard deviation and the raw MAD are infinite and the MAD is
  \<open>1e-12\<close>; the median is 0.
\<close>

lemma extreme_sorted: "std_sort extreme_charge = extreme_charge"
  by (simp add: vector_simps large_def)

lemma extreme_median:
  "median (CalculateRobustStatisticsPowerLorentzian extreme_x extreme_charge) = Fin 0"
  by (simp add: statistics_median extreme_sorted median_of_sorted_def)

lemma extreme_sum: "accumulate extreme_charge = NInf"
  by (simp add: accumulate_def round_to_double_def overflow_bound_def large_def)

lemma extreme_std_dev:
  "std_dev (CalculateRobustStatisticsPowerLorentzian extreme_x extreme_charge) = PInf"
  by (simp add: statistics_std_dev extreme_sum minus_double_def divide_double_def)

lemma extreme_deviations:
  "map (\<lambda>val. \<bar>val - Fin 0\<bar>) extreme_charge =
     [Fin large, Fin large, Fin large, Fin large, Fin 0, Fin 0, Fin 0,
      Fin (3 / 1000000000000), Fin (3 / 1000000000000), Fin (3 / 1000000000000),
      Fin large, Fin large, Fin large]"
  by (simp add: minus_double_def round_to_double_def overflow_bound_def large_def)

lemma extreme_deviations_sorted:
  "std_sort [Fin large, Fin large, Fin large, Fin large, Fin 0, Fin 0, Fin 0,
      Fin (3 / 1000000000000), Fin (3 / 1000000000000), Fin (3 / 1000000000000),
      Fin large, Fin large, Fin large] =
     [Fin 0, Fin 0, Fin 0, Fin (3 / 1000000000000), Fin (3 / 1000000000000),
      Fin (3 / 1000000000000), Fin large, Fin large, Fin large, Fin large, Fin large,
      Fin large, Fin large]"
  by (simp add: vector_simps large_def)

lemma extreme_raw_mad: "raw_mad extreme_charge (Fin 0) = PInf"
  unfolding raw_mad_def Let_def extreme_deviations extreme_deviations_sorted
  by (simp add: round_to_double_def overflow_bound_def large_def)

lemma extreme_mad:
  "mad (CalculateRobustStatisticsPowerLorentzian extreme_x extreme_charge) = d1e_12"
proof -
  have "mad (CalculateRobustStatisticsPowerLorentzian extreme_x extreme_charge) =
        safeguard_mad (raw_mad extreme_charge
            (median (CalculateRobustStatisticsPowerLorentzian extreme_x extreme_charge)))
          (std_dev (CalculateRobustStatisticsPowerLorentzian extreme_x extreme_charge))"
    by (rule statistics_mad) simp_all
  then show ?thesis
    unfolding extreme_median extreme_raw_mad extreme_std_dev by (simp add: safeguard_mad_def)
qed

lemma extreme_conservative_pass:
  "mad_pass (CalculateRobustStatisticsPowerLorentzian extreme_x extreme_charge) (Fin 2.5)
     extreme_x extreme_charge = ([Fin 4, Fin 5, Fin 6], [Fin 0, Fin 0, Fin 0])"
  unfolding mad_pass_def extreme_median extreme_mad
  by (simp add: double_simps large_def)

lemma extreme_lenient_pass:
  "mad_pass (CalculateRobustStatisticsPowerLorentzian extreme_x extreme_charge) (Fin 4)
     extreme_x extreme_charge =
     ([Fin 4, Fin 5, Fin 6, Fin 7, Fin 8, Fin 9],
      [Fin 0, Fin 0, Fin 0, Fin (3 / 1000000000000), Fin (3 / 1000000000000),
       Fin (3 / 1000000000000)])"
  unfolding mad_pass_def extreme_median extreme_mad
  by (simp add: double_simps large_def)

text \<open>
  Claim C4, amended. For every profile of \<open>n\<close> points, as many positions as charges and
  \<open>5 \<le> n\<close>, and every threshold \<open>k\<close>, the conservative \<open>k = 2.5\<close> among them: the filter
  discards the pass with threshold \<open>k\<close> and filters the original data with the threshold 4.0
  in its place exactly when that pass keeps fewer than \<open>n div 2\<close> points, that is when it
  removes more than half of an even number of points, or more than \<open>(n + 1) / 2\<close> of an odd
  number; otherwise the pass with threshold \<open>k\<close> stands. The pass with threshold 4.0 keeps,
  in their order, the points whose charge lies within
  \<open>[median - 4.0 * MAD, median + 4.0 * MAD]\<close>. Whichever pass stands is returned when it has
  at least five points, and the original data are returned when it has fewer.
\<close>

theorem lenient_retry_below_half:
  assumes "length x_vals = length y_vals" and "5 \<le> length x_vals"
  shows
    "FilterPowerLorentzianOutliers x_vals y_vals k =
       (let stats = CalculateRobustStatisticsPowerLorentzian x_vals y_vals;
            filtered =
              (if length (fst (mad_pass stats k x_vals y_vals)) < length x_vals div 2
               then mad_pass stats (Fin 4) x_vals y_vals
               else mad_pass stats k x_vals y_vals)
        in if length (fst filtered) < 5 then (x_vals, y_vals) else filtered) \<and>
     (length (fst (mad_pass (CalculateRobustStatisticsPowerLorentzian x_vals y_vals) k x_vals
                     y_vals)) < length x_vals div 2 \<longleftrightarrow>
      length x_vals + length x_vals mod 2 <
        2 * (length x_vals -
             length (fst (mad_pass (CalculateRobustStatisticsPowerLorentzian x_vals y_vals) k
                            x_vals y_vals)))) \<and>
     mad_pass (CalculateRobustStatisticsPowerLorentzian x_vals y_vals) (Fin 4) x_vals y_vals =
       (map fst
          (filter (\<lambda>p. median (CalculateRobustStatisticsPowerLorentzian x_vals y_vals) -
                          Fin 4 * mad (CalculateRobustStatisticsPowerLorentzian x_vals y_vals)
                          \<le> snd p \<and>
                        snd p \<le>
                          median (CalculateRobustStatisticsPowerLorentzian x_vals y_vals) +
                          Fin 4 * mad (CalculateRobustStatisticsPowerLorentzian x_vals y_vals))
             (zip x_vals y_vals)),
        map snd
          (filter (\<lambda>p. median (CalculateRobustStatisticsPowerLorentzian x_vals y_vals) -
                          Fin 4 * mad (CalculateRobustStatisticsPowerLorentzian x_vals y_vals)
                          \<le> snd p \<and>
                        snd p \<le>
                          median (CalculateRobustStatisticsPowerLorentzian x_vals y_vals) +
                          Fin 4 * mad (CalculateRobustStatisticsPowerLorentzian x_vals y_vals))
             (zip x_vals y_vals)))"
proof (intro conjI)
  show "FilterPowerLorentzianOutliers x_vals y_vals k =
       (let stats = CalculateRobustStatisticsPowerLorentzian x_vals y_vals;
            filtered =
              (if length (fst (mad_pass stats k x_vals y_vals)) < length x_vals div 2
               then mad_pass stats (Fin 4) x_vals y_vals
               else mad_pass stats k x_vals y_vals)
        in if length (fst filtered) < 5 then (x_vals, y_vals) else filtered)"
    using assms by (simp add: filter_unfold lenient_retry_def Let_def)
  have "length (fst (mad_pass (CalculateRobustStatisticsPowerLorentzian x_vals y_vals) k x_vals
                       y_vals)) \<le> length x_vals"
    by (simp add: mad_pass_def threshold_pass_lengths(2))
  then show "length (fst (mad_pass (CalculateRobustStatisticsPowerLorentzian x_vals y_vals) k
                            x_vals y_vals)) < length x_vals div 2 \<longleftrightarrow>
      length x_vals + length x_vals mod 2 <
        2 * (length x_vals -
             length (fst (mad_pass (CalculateRobustStatisticsPowerLorentzian x_vals y_vals) k
                            x_vals y_vals)))"
    by (rule below_half_iff)
  show "mad_pass (CalculateRobustStatisticsPowerLorentzian x_vals y_vals) (Fin 4) x_vals y_vals =
       (map fst
          (filter (\<lambda>p. median (CalculateRobustStatisticsPowerLorentzian x_vals y_vals) -
                          Fin 4 * mad (CalculateRobustStatisticsPowerLorentzian x_vals y_vals)
                          \<le> snd p \<and>
                        snd p \<le>
                          median (CalculateRobustStatisticsPowerLorentzian x_vals y_vals) +
                          Fin 4 * mad (CalculateRobustStatisticsPowerLorentzian x_vals y_vals))
             (zip x_vals y_vals)),
        map snd
          (filter (\<lambda>p. median (CalculateRobustStatisticsPowerLorentzian x_vals y_vals) -
                          Fin 4 * mad (CalculateRobustStatisticsPowerLorentzian x_vals y_vals)
                          \<le> snd p \<and>
                        snd p \<le>
                          median (CalculateRobustStatisticsPowerLorentzian x_vals y_vals) +
                          Fin 4 * mad (CalculateRobustStatisticsPowerLorentzian x_vals y_vals))
             (zip x_vals y_vals)))"
    unfolding mad_pass_def using assms(1) by (rule threshold_pass_filter)
qed

text \<open>
  The theorem at the conservative threshold on the profile of thirteen finite charges: the
  pass with threshold 2.5 keeps three of thirteen points, fewer than \<open>13 div 2 = 6\<close>, and the
  filter returns the six points of the pass with threshold 4.0.
\<close>

theorem lenient_retry_below_half_witness:
  "length (fst (mad_pass (CalculateRobustStatisticsPowerLorentzian extreme_x extreme_charge)
                  (Fin 2.5) extreme_x extreme_charge)) < length extreme_x div 2 \<and>
   FilterPowerLorentzianOutliers extreme_x extreme_charge (Fin 2.5) =
     ([Fin 4, Fin 5, Fin 6, Fin 7, Fin 8, Fin 9],
      [Fin 0, Fin 0, Fin 0, Fin (3 / 1000000000000), Fin (3 / 1000000000000),
       Fin (3 / 1000000000000)])"
proof -
  have l: "length extreme_x = length extreme_charge" "5 \<le> length extreme_x" by simp_all
  have c: "length (fst (mad_pass (CalculateRobustStatisticsPowerLorentzian extreme_x
             extreme_charge) (Fin 2.5) extreme_x extreme_charge)) < length extreme_x div 2"
    unfolding extreme_conservative_pass by simp
  have "FilterPowerLorentzianOutliers extreme_x extreme_charge (Fin 2.5) =
       (let stats = CalculateRobustStatisticsPowerLorentzian extreme_x extreme_charge;
            filtered =
              (if length (fst (mad_pass stats (Fin 2.5) extreme_x extreme_charge)) <
                  length extreme_x div 2
               then mad_pass stats (Fin 4) extreme_x extreme_charge
               else mad_pass stats (Fin 2.5) extreme_x extreme_charge)
        in if length (fst filtered) < 5 then (extreme_x, extreme_charge) else filtered)"
    using lenient_retry_below_half[OF l, of "Fin 2.5"] by blast
  also have "\<dots> = ([Fin 4, Fin 5, Fin 6, Fin 7, Fin 8, Fin 9],
      [Fin 0, Fin 0, Fin 0, Fin (3 / 1000000000000), Fin (3 / 1000000000000),
       Fin (3 / 1000000000000)])"
    unfolding Let_def extreme_conservative_pass extreme_lenient_pass by simp
  finally show ?thesis using c by blast
qed

end
